theory Spec2Isabelle
  imports Main
begin

section \<open>JavaScript values as the scoring clients read them\<close>

text \<open>
  The two scoring clients (\<^verbatim>\<open>src/config/groq.js\<close> and the Gemini client) read the
  value that \<^verbatim>\<open>JSON.parse\<close> returns. A number is read in two ways only: for its
  truthiness and through \<^verbatim>\<open>parseInt\<close>, which first renders it with \<^verbatim>\<open>String\<close>. So a
  number is carried as that rendering (\<^verbatim>\<open>85\<close> is \<open>JNum ''85''\<close>, both zeros are
  \<open>JNum ''0''\<close>): every double has one, and a theorem about every \<open>JNum s\<close> covers
  every double. An object is the list of its own properties; \<open>JUndefined\<close> is what
  reading a missing property gives.
\<close>

datatype jsval =
    JUndefined
  | JNull
  | JBool bool
  | JNum string
  | JStr string
  | JArr "jsval list"
  | JObj "(string \<times> jsval) list"

text \<open>\<^verbatim>\<open>!v\<close> is false exactly on the truthy values.\<close>

fun truthy :: "jsval \<Rightarrow> bool" where
  "truthy JUndefined = False"
| "truthy JNull = False"
| "truthy (JBool b) = b"
| "truthy (JNum s) = (s \<noteq> ''0'' \<and> s \<noteq> ''NaN'')"
| "truthy (JStr s) = (s \<noteq> [])"
| "truthy (JArr xs) = True"
| "truthy (JObj kvs) = True"

text \<open>\<^verbatim>\<open>v.k\<close> on a value that is neither \<^verbatim>\<open>null\<close> nor \<^verbatim>\<open>undefined\<close>, for the keys the
  clients read (score, strengths, weaknesses, summary), none of which a prototype has.\<close>

fun get_prop :: "jsval \<Rightarrow> string \<Rightarrow> jsval" where
  "get_prop (JObj kvs) k = (case map_of kvs k of None \<Rightarrow> JUndefined | Some v \<Rightarrow> v)"
| "get_prop v k = JUndefined"

text \<open>\<^verbatim>\<open>k in v\<close> for an object or an array and the same keys.\<close>

fun has_prop :: "string \<Rightarrow> jsval \<Rightarrow> bool" where
  "has_prop k (JObj kvs) = (map_of kvs k \<noteq> None)"
| "has_prop k v = False"

fun join_comma :: "string list \<Rightarrow> string" where
  "join_comma [] = []"
| "join_comma [s] = s"
| "join_comma (s # t # ss) = s @ '','' @ join_comma (t # ss)"

text \<open>The abstract operation ToString of the language, which \<^verbatim>\<open>parseInt\<close> applies to
  its argument; \<open>None\<close> is its TypeError. An array is its elements joined by commas,
  \<^verbatim>\<open>null\<close> and \<^verbatim>\<open>undefined\<close> elements as the empty string. A parsed object is
  \<^verbatim>\<open>[object Object]\<close>, unless it has a property \<^verbatim>\<open>toString\<close> of its own: that value
  is not a function and hides the inherited method, \<^verbatim>\<open>valueOf\<close> returns no primitive, and
  the conversion throws.\<close>

fun ToString :: "jsval \<Rightarrow> string option" where
  "ToString JUndefined = Some ''undefined''"
| "ToString JNull = Some ''null''"
| "ToString (JBool b) = Some (if b then ''true'' else ''false'')"
| "ToString (JNum s) = Some s"
| "ToString (JStr s) = Some s"
| "ToString (JArr xs) =
     map_option join_comma
       (those (map (\<lambda>x. if x = JUndefined \<or> x = JNull then Some [] else ToString x) xs))"
| "ToString (JObj kvs) =
     (if map_of kvs ''toString'' = None then Some ''[object Object]'' else None)"

text \<open>White space and line terminators among the code units below 256.\<close>

definition StrWhiteSpaceChar :: "char \<Rightarrow> bool" where
  "StrWhiteSpaceChar c =
     (c \<in> set [CHR 0x09, CHR 0x0A, CHR 0x0B, CHR 0x0C, CHR 0x0D, CHR 0x20, CHR 0xA0])"

text \<open>The value of a character as a digit of radix \<open>R\<close>, when it is one.\<close>

definition digit_of :: "nat \<Rightarrow> char \<Rightarrow> nat option" where
  "digit_of R c =
     (let n = (of_char c :: nat);
          d = (if 48 \<le> n \<and> n \<le> 57 then Some (n - 48)
               else if 97 \<le> n \<and> n \<le> 122 then Some (n - 87)
               else if 65 \<le> n \<and> n \<le> 90 then Some (n - 55)
               else None)
      in (case d of None \<Rightarrow> None | Some v \<Rightarrow> if v < R then Some v else None))"

text \<open>
  \<^verbatim>\<open>parseInt(string)\<close> with no radix, on the string already rendered: leading white
  space is dropped, a sign is read, \<^verbatim>\<open>0x\<close> or \<^verbatim>\<open>0X\<close> selects radix 16, and the longest
  run of digits is the value. No digit gives \<^verbatim>\<open>NaN\<close>, here \<open>None\<close>. The value is the
  mathematical integer: the double that the language returns for a long run of digits is
  its rounding, which lies on the same side of 0 and of 100.
\<close>

definition parseInt_string :: "string \<Rightarrow> int option" where
  "parseInt_string inputString =
     (let S = dropWhile StrWhiteSpaceChar inputString;
          sign = (case S of [] \<Rightarrow> 1 | c # r \<Rightarrow> if c = CHR ''-'' then - 1 else (1::int));
          S1 = (case S of [] \<Rightarrow> S
                | c # r \<Rightarrow> if c = CHR ''+'' \<or> c = CHR ''-'' then r else S);
          hex = (case S1 of a # b # r \<Rightarrow> a = CHR ''0'' \<and> (b = CHR ''x'' \<or> b = CHR ''X'')
                 | _ \<Rightarrow> False);
          R = (if hex then 16 else 10);
          S2 = (if hex then drop 2 S1 else S1);
          Z = takeWhile (\<lambda>c. digit_of R c \<noteq> None) S2
      in if Z = [] then None
         else Some (sign * int (foldl (\<lambda>a d. a * R + d) 0 (List.map_filter (digit_of R) Z))))"

datatype error = Error string | TypeError string | SyntaxError string

text \<open>\<^verbatim>\<open>parseInt(v)\<close>: it throws when the conversion to a string does.\<close>

definition parseInt :: "jsval \<Rightarrow> error + int option" where
  "parseInt v =
     (case ToString v of
        None \<Rightarrow> Inl (TypeError ''Cannot convert object to primitive value'')
      | Some inputString \<Rightarrow> Inr (parseInt_string inputString))"

text \<open>A number the clients compute: \<^verbatim>\<open>NaN\<close> or an integer.\<close>

datatype number = NaN | Number int

text \<open>\<^verbatim>\<open>Math.max(0, Math.min(100, n))\<close>; both functions return \<^verbatim>\<open>NaN\<close> on \<^verbatim>\<open>NaN\<close>.\<close>

fun clamp_score :: "number \<Rightarrow> number" where
  "clamp_score NaN = NaN"
| "clamp_score (Number n) = Number (max 0 (min 100 n))"

text \<open>The four properties of the returned object that its callers read.\<close>

record evaluation =
  score :: number
  strengths :: "jsval list"
  weaknesses :: "jsval list"
  summary :: jsval

subsection \<open>String helpers of the Groq client\<close>

definition toLowerCase :: "string \<Rightarrow> string" where
  "toLowerCase s =
     map (\<lambda>c. let n = (of_char c :: nat)
              in if (65 \<le> n \<and> n \<le> 90) \<or> (192 \<le> n \<and> n \<le> 222 \<and> n \<noteq> 215)
                 then char_of (n + 32) else c) s"

fun str_includes :: "string \<Rightarrow> string \<Rightarrow> bool" where
  "str_includes [] sub = (sub = [])"
| "str_includes (c # cs) sub =
     (if take (length sub) (c # cs) = sub then True else str_includes cs sub)"

definition trim :: "string \<Rightarrow> string" where
  "trim s = rev (dropWhile StrWhiteSpaceChar (rev (dropWhile StrWhiteSpaceChar s)))"

text \<open>\<^verbatim>\<open>s.match(/\{[\s\S]*\}/)\<close>: the greedy match runs from the first opening brace to
  the last closing brace after it; there is none when no closing brace follows.\<close>

definition match_braces :: "string \<Rightarrow> string option" where
  "match_braces s =
     (let t = dropWhile (\<lambda>c. c \<noteq> CHR 0x7B) s;
          u = rev (dropWhile (\<lambda>c. c \<noteq> CHR 0x7D) (rev t))
      in if u = [] then None else Some u)"

section \<open>The Groq scoring client (src/config/groq.js)\<close>

text \<open>What \<^verbatim>\<open>await groq.chat.completions.create(...)\<close> does: it rejects (transport
  error, timeout), or resolves, and then \<^verbatim>\<open>completion.choices[0]?.message?.content\<close> is
  a string or missing.\<close>

datatype completion = Rejects error | Resolves "string option"

text \<open>The two fallback objects of \<^verbatim>\<open>evaluateCV\<close> (accented letters are written without
  their accent).\<close>

definition groq_parse_fallback :: evaluation where
  "groq_parse_fallback =
     \<lparr>score = Number 50,
      strengths = [JStr ''Candidato presenta experiencia en el area'',
                   JStr ''Perfil con potencial de desarrollo''],
      weaknesses = [JStr ''Requiere evaluacion mas detallada'',
                    JStr ''Informacion limitada para analisis completo''],
      summary = JStr ''Evaluacion requiere revision manual debido a error en el procesamiento automatico.''\<rparr>"

definition groq_error_fallback :: evaluation where
  "groq_error_fallback =
     \<lparr>score = Number 0,
      strengths = [JStr ''Evaluacion pendiente'', JStr ''Requiere revision manual''],
      weaknesses = [JStr ''Error en procesamiento automatico'',
                    JStr ''Informacion no disponible''],
      summary = JStr ''Error en la evaluacion automatica. Se requiere revision manual del candidato.''\<rparr>"

text \<open>The body of the inner \<^verbatim>\<open>try\<close> (lines 103 to 130): parse, check that the three
  properties are truthy, clamp the score, cut the lists to two elements.
  \<^verbatim>\<open>JSON.parse\<close> is a parameter; \<open>None\<close> is its SyntaxError.\<close>

definition evaluateCV_parse :: "(string \<Rightarrow> jsval option) \<Rightarrow> string \<Rightarrow> error + evaluation" where
  "evaluateCV_parse JSON_parse cleanResponse =
     (case JSON_parse cleanResponse of
        None \<Rightarrow> Inl (SyntaxError ''Unexpected token'')
      | Some ev \<Rightarrow>
          if ev = JNull \<or> ev = JUndefined
          then Inl (TypeError ''Cannot read properties of null'')
          else if \<not> truthy (get_prop ev ''score'') then Inl (Error ''Respuesta del modelo incompleta'')
          else if \<not> truthy (get_prop ev ''strengths'') then Inl (Error ''Respuesta del modelo incompleta'')
          else if \<not> truthy (get_prop ev ''weaknesses'') then Inl (Error ''Respuesta del modelo incompleta'')
          else
            (case parseInt (get_prop ev ''score'') of
               Inl err \<Rightarrow> Inl err
             | Inr parsed \<Rightarrow>
                 Inr
                   \<lparr>score = clamp_score (case parsed of None \<Rightarrow> NaN | Some n \<Rightarrow> Number n),
                    strengths = (case get_prop ev ''strengths'' of
                                   JArr xs \<Rightarrow> take 2 xs
                                 | _ \<Rightarrow> [JStr ''Evaluacion pendiente'', JStr ''Requiere revision'']),
                    weaknesses = (case get_prop ev ''weaknesses'' of
                                    JArr xs \<Rightarrow> take 2 xs
                                  | _ \<Rightarrow> [JStr ''Informacion limitada'',
                                          JStr ''Analisis incompleto'']),
                    summary = (if truthy (get_prop ev ''summary'') then get_prop ev ''summary''
                               else JStr ''Evaluacion completada automaticamente'')\<rparr>))"

text \<open>The body of the outer \<^verbatim>\<open>try\<close> (lines 25 to 149), with the inner \<^verbatim>\<open>catch\<close>.\<close>

definition evaluateCV_try :: "(string \<Rightarrow> jsval option) \<Rightarrow> completion \<Rightarrow> error + evaluation" where
  "evaluateCV_try JSON_parse completion =
     (case completion of
        Rejects e \<Rightarrow> Inl e
      | Resolves None \<Rightarrow> Inl (Error ''No se recibio respuesta del modelo'')
      | Resolves (Some response) \<Rightarrow>
          if response = [] then Inl (Error ''No se recibio respuesta del modelo'')
          else
            let cleanResponse = trim response in
            if str_includes (toLowerCase cleanResponse) ''safe''
            then Inl (Error ''Respuesta filtrada por seguridad'')
            else
              let cleanResponse = (case match_braces cleanResponse of
                                     Some jsonMatch \<Rightarrow> jsonMatch | None \<Rightarrow> cleanResponse)
              in (case evaluateCV_parse JSON_parse cleanResponse of
                    Inr ev \<Rightarrow> Inr ev
                  | Inl parseError \<Rightarrow> Inr groq_parse_fallback))"

text \<open>\<^verbatim>\<open>evaluateCV(cvText, jobDescription)\<close>. The SDK call is a parameter: a function of
  the two texts the prompt is built from.\<close>

definition evaluateCV ::
  "(string \<Rightarrow> string \<Rightarrow> completion) \<Rightarrow> (string \<Rightarrow> jsval option) \<Rightarrow> string \<Rightarrow> string \<Rightarrow> error + evaluation" where
  "evaluateCV groq_create JSON_parse cvText jobDescription =
     (case evaluateCV_try JSON_parse (groq_create cvText jobDescription) of
        Inr ev \<Rightarrow> Inr ev
      | Inl err \<Rightarrow> Inr groq_error_fallback)"

text \<open>The lines \<^verbatim>\<open>evaluateCV\<close> writes with \<^verbatim>\<open>console.error\<close> on the way: one in the
  outer \<^verbatim>\<open>catch\<close>, two in the inner one.\<close>

definition evaluateCV_console ::
  "(string \<Rightarrow> string \<Rightarrow> completion) \<Rightarrow> (string \<Rightarrow> jsval option) \<Rightarrow> string \<Rightarrow> string \<Rightarrow> string list" where
  "evaluateCV_console groq_create JSON_parse cvText jobDescription =
     (case evaluateCV_try JSON_parse (groq_create cvText jobDescription) of
        Inl err \<Rightarrow> [''Error en evaluacion con Groq:'']
      | Inr ev \<Rightarrow>
          (case groq_create cvText jobDescription of
             Resolves (Some response) \<Rightarrow>
               (case evaluateCV_parse JSON_parse
                       (case match_braces (trim response) of
                          Some jsonMatch \<Rightarrow> jsonMatch | None \<Rightarrow> trim response) of
                  Inl parseError \<Rightarrow> [''Error parseando respuesta JSON:'', ''Respuesta recibida:'']
                | Inr parsed \<Rightarrow> [])
           | _ \<Rightarrow> []))"

section \<open>The Gemini scoring client\<close>

text \<open>\<^verbatim>\<open>while (list.length < 3) list.push(filler)\<close>, for any bound.\<close>

function push_while_shorter :: "nat \<Rightarrow> jsval \<Rightarrow> jsval list \<Rightarrow> jsval list" where
  "push_while_shorter n filler xs =
     (if length xs < n then push_while_shorter n filler (xs @ [filler]) else xs)"
  by pat_completeness auto
termination
  by (relation "measure (\<lambda>(n, filler, xs). n - length xs)") auto

declare push_while_shorter.simps [simp del]

definition normalizeEvaluation :: "jsval \<Rightarrow> error + evaluation" where
  "normalizeEvaluation ev =
     (if \<not> truthy ev then Inl (Error ''Respuesta del modelo no es un objeto valido'')
      else if \<not> (case ev of JArr xs \<Rightarrow> True | JObj kvs \<Rightarrow> True | _ \<Rightarrow> False)
      then Inl (Error ''Respuesta del modelo no es un objeto valido'')
      else if \<not> has_prop ''score'' ev
      then Inl (Error ''Respuesta del modelo incompleta. Faltan score, strengths o weaknesses.'')
      else if \<not> has_prop ''strengths'' ev
      then Inl (Error ''Respuesta del modelo incompleta. Faltan score, strengths o weaknesses.'')
      else if \<not> has_prop ''weaknesses'' ev
      then Inl (Error ''Respuesta del modelo incompleta. Faltan score, strengths o weaknesses.'')
      else
        (case parseInt (get_prop ev ''score'') of
           Inl err \<Rightarrow> Inl err
         | Inr parsed \<Rightarrow>
             Inr
               \<lparr>score = clamp_score (case parsed of
                                        None \<Rightarrow> Number 0
                                      | Some n \<Rightarrow> if n = 0 then Number 0 else Number n),
                strengths = push_while_shorter 3 (JStr ''Analisis pendiente'')
                              (take 3 (case get_prop ev ''strengths'' of
                                         JArr xs \<Rightarrow> xs | _ \<Rightarrow> [])),
                weaknesses = push_while_shorter 3 (JStr ''Informacion limitada'')
                               (take 3 (case get_prop ev ''weaknesses'' of
                                          JArr xs \<Rightarrow> xs | _ \<Rightarrow> [])),
                summary = (if truthy (get_prop ev ''summary'') then get_prop ev ''summary''
                           else JStr ''Evaluacion completada automaticamente.'')\<rparr>))"

text \<open>What \<^verbatim>\<open>await model.generateContent(prompt)\<close> followed by \<^verbatim>\<open>response.text()\<close>
  does: one of the two throws, or the text is there.\<close>

datatype generation = GenRejects error | GenText string

definition gemini_fallback :: evaluation where
  "gemini_fallback =
     \<lparr>score = Number 0,
      strengths = [JStr ''Evaluacion pendiente'', JStr ''Requiere revision manual'',
                   JStr ''Error de IA''],
      weaknesses = [JStr ''Error en procesamiento automatico'',
                    JStr ''Informacion no disponible'', JStr ''Fallo en la API''],
      summary = JStr ''Error en la evaluacion automatica con Gemini. Se requiere revision manual del candidato.''\<rparr>"

definition evaluateCVWithText_try :: "(string \<Rightarrow> jsval option) \<Rightarrow> generation \<Rightarrow> error + evaluation" where
  "evaluateCVWithText_try JSON_parse gen =
     (case gen of
        GenRejects e \<Rightarrow> Inl e
      | GenText evaluation_text \<Rightarrow>
          (case JSON_parse evaluation_text of
             None \<Rightarrow> Inl (SyntaxError ''Unexpected token'')
           | Some ev \<Rightarrow> normalizeEvaluation ev))"

definition evaluateCVWithText ::
  "(string \<Rightarrow> string \<Rightarrow> generation) \<Rightarrow> (string \<Rightarrow> jsval option) \<Rightarrow> string \<Rightarrow> string \<Rightarrow> error + evaluation" where
  "evaluateCVWithText generateContent JSON_parse cvText jobDescription =
     (case evaluateCVWithText_try JSON_parse (generateContent cvText jobDescription) of
        Inr ev \<Rightarrow> Inr ev
      | Inl err \<Rightarrow> Inr gemini_fallback)"

text \<open>The line \<^verbatim>\<open>evaluateCVWithText\<close> writes with \<^verbatim>\<open>console.error\<close> in its
  \<^verbatim>\<open>catch\<close>.\<close>

definition evaluateCVWithText_console ::
  "(string \<Rightarrow> string \<Rightarrow> generation) \<Rightarrow> (string \<Rightarrow> jsval option) \<Rightarrow> string \<Rightarrow> string \<Rightarrow> string list" where
  "evaluateCVWithText_console generateContent JSON_parse cvText jobDescription =
     (case evaluateCVWithText_try JSON_parse (generateContent cvText jobDescription) of
        Inl err \<Rightarrow> [''Error en evaluacion con Gemini (Text):'']
      | Inr ev \<Rightarrow> [])"

section \<open>The stores: rows, bucket, console, queued callbacks\<close>

text \<open>The rows of the three tables the routes touch, with the columns they read or write
  (migration \<^verbatim>\<open>001\<close>). \<^verbatim>\<open>cv_text\<close> and \<^verbatim>\<open>candidate_phone\<close> are nullable.\<close>

type_synonym uuid = string

record job_role =
  jr_id :: uuid
  jr_description :: string
  jr_status :: string
  jr_created_by :: uuid

record application =
  app_id :: uuid
  job_role_id :: uuid
  candidate_name :: string
  candidate_email :: string
  candidate_phone :: "string option"
  cv_file_path :: string
  cv_text :: "string option"
  app_status :: string

record evaluation_row =
  ev_application_id :: uuid
  ev_score :: int
  ev_strengths :: "jsval list"
  ev_weaknesses :: "jsval list"
  ev_summary :: jsval
  ev_model_used :: string

datatype sql =
    BEGIN
  | COMMIT
  | ROLLBACK
  | SelectActiveRole
  | SelectExistingApplication
  | InsertApplication
  | InsertEvaluation
  | SelectApplicationJoin
  | UpdateApplication
  | DeleteEvaluations
  | DeleteApplication
  | SelectEvaluation
  | UpdateEvaluation

text \<open>Every call that leaves the process, and every response sent, in the order made.\<close>

datatype call =
    Sql sql
  | PoolConnect
  | StorageUpload string
  | StorageRemove string
  | PdfParse
  | SetImmediate uuid
  | GroqCreate
  | GeminiGenerate
  | Respond nat

text \<open>The callback that \<^verbatim>\<open>setImmediate\<close> queues in the submission route closes over the
  new application's id, the extracted text and the job description.\<close>

datatype immediate = Immediate uuid string string

record world =
  job_roles :: "job_role list"
  applications :: "application list"
  evaluations :: "evaluation_row list"
  bucket :: "string list"
  console_error :: "string list"
  immediates :: "immediate list"
  calls :: "call list"

text \<open>A call of the storage client resolves, resolves with an \<^verbatim>\<open>error\<close> property (as
  \<^verbatim>\<open>uploadToSupabaseStorage\<close> reads it), or rejects.\<close>

datatype storage_outcome = Done | ReturnsError string | Throws string

record user =
  user_id :: uuid
  profile_role :: "string option"

text \<open>
  What the collaborators do during one request. A statement rejects when the database
  says so (\<open>sql_rejects\<close>: a lost connection, a constraint the model does not carry);
  the verdict of the Joi schema on the body, the identifiers drawn, the outcome of the
  storage calls and of \<^verbatim>\<open>pdfParse\<close>, the user that \<^verbatim>\<open>authenticateToken\<close> attaches (none
  when it answers 401), and the two AI providers with \<^verbatim>\<open>JSON.parse\<close> are given.
\<close>

record env =
  sql_rejects :: "sql \<Rightarrow> bool"
  connect_rejects :: bool
  validationError :: "string option"
  uuidv4 :: string
  uuid_generate_v4 :: uuid
  storage_upload :: storage_outcome
  storage_remove :: storage_outcome
  pdfParse :: "string option"
  supabase_url :: string
  max_file_size :: nat
  authenticated :: "user option"
  groq_create :: "string \<Rightarrow> string \<Rightarrow> completion"
  generateContent :: "string \<Rightarrow> string \<Rightarrow> generation"
  JSON_parse :: "string \<Rightarrow> jsval option"

record response =
  status :: nat
  message :: string
  res_application :: "application option"
  res_evaluation :: "evaluation_row option"

definition emit :: "call \<Rightarrow> world \<Rightarrow> world" where
  "emit c w = w\<lparr>calls := calls w @ [c]\<rparr>"

definition console_dot_error :: "string \<Rightarrow> world \<Rightarrow> world" where
  "console_dot_error line w = w\<lparr>console_error := console_error w @ [line]\<rparr>"

definition console_dot_errors :: "string list \<Rightarrow> world \<Rightarrow> world" where
  "console_dot_errors lines w = w\<lparr>console_error := console_error w @ lines\<rparr>"

definition respond :: "nat \<Rightarrow> string \<Rightarrow> world \<Rightarrow> response \<times> world" where
  "respond st msg w =
     (\<lparr>status = st, message = msg, res_application = None, res_evaluation = None\<rparr>,
      emit (Respond st) w)"

fun error_message :: "error \<Rightarrow> string" where
  "error_message (Error m) = m"
| "error_message (TypeError m) = m"
| "error_message (SyntaxError m) = m"

section \<open>The database helper (utils/database)\<close>

text \<open>\<^verbatim>\<open>query(text, params)\<close> on the pool and \<^verbatim>\<open>client.query\<close> inside a transaction:
  the statement is sent; when it rejects, \<^verbatim>\<open>query\<close> logs and rethrows. What a statement
  that succeeds reads or writes is written where it is issued.\<close>

definition query :: "env \<Rightarrow> sql \<Rightarrow> world \<Rightarrow> (error + unit) \<times> world" where
  "query e stmt w =
     (if sql_rejects e stmt
      then (Inl (Error ''statement rejected''),
            console_dot_error ''Error en consulta SQL'' (emit (Sql stmt) w))
      else (Inr (), emit (Sql stmt) w))"

definition client_query :: "env \<Rightarrow> sql \<Rightarrow> world \<Rightarrow> (error + unit) \<times> world" where
  "client_query e stmt w =
     (if sql_rejects e stmt
      then (Inl (Error ''statement rejected''), emit (Sql stmt) w)
      else (Inr (), emit (Sql stmt) w))"

definition logQuery :: "env \<Rightarrow> sql \<Rightarrow> world \<Rightarrow> (error + unit) \<times> world" where
  "logQuery e stmt w =
     (if sql_rejects e stmt
      then (Inl (Error ''statement rejected''),
            console_dot_error ''Error en consulta de transaccion'' (emit (Sql stmt) w))
      else (Inr (), emit (Sql stmt) w))"

text \<open>The \<^verbatim>\<open>catch\<close> of \<^verbatim>\<open>transaction\<close>: \<^verbatim>\<open>ROLLBACK\<close> is sent and the error is
  rethrown, or the error of \<^verbatim>\<open>ROLLBACK\<close> when that statement rejects. The rows are those
  before \<^verbatim>\<open>BEGIN\<close> again (also when \<^verbatim>\<open>ROLLBACK\<close> rejects: the connection is gone and the
  server aborts the transaction); everything outside the database stays.\<close>

definition restore_rows :: "world \<Rightarrow> world \<Rightarrow> world" where
  "restore_rows snapshot w =
     w\<lparr>job_roles := job_roles snapshot, applications := applications snapshot,
       evaluations := evaluations snapshot\<rparr>"

definition rollback :: "env \<Rightarrow> world \<Rightarrow> error \<Rightarrow> world \<Rightarrow> (error + 'a) \<times> world" where
  "rollback e snapshot err w =
     (case logQuery e ROLLBACK w of
        (Inl err2, w1) \<Rightarrow> (Inl err2, restore_rows snapshot w1)
      | (Inr u, w1) \<Rightarrow> (Inl err, restore_rows snapshot w1))"

text \<open>
  \<^verbatim>\<open>transaction(callback)\<close>: \<^verbatim>\<open>getClient\<close>, then \<^verbatim>\<open>BEGIN\<close>, the callback and
  \<^verbatim>\<open>COMMIT\<close> inside \<^verbatim>\<open>try\<close>; any throw there is answered by \<^verbatim>\<open>ROLLBACK\<close> and
  rethrown. One request runs at a time, so the rows the callback writes are the
  transaction's until \<^verbatim>\<open>COMMIT\<close>.
\<close>

definition transaction ::
  "env \<Rightarrow> (world \<Rightarrow> (error + 'a) \<times> world) \<Rightarrow> world \<Rightarrow> (error + 'a) \<times> world" where
  "transaction e callback w =
     (if connect_rejects e then (Inl (Error ''connection rejected''), emit PoolConnect w)
      else
        (case logQuery e BEGIN (emit PoolConnect w) of
           (Inl err, w1) \<Rightarrow> rollback e w err w1
         | (Inr u, w1) \<Rightarrow>
             (case callback w1 of
                (Inl err, w2) \<Rightarrow> rollback e w err w2
              | (Inr result, w2) \<Rightarrow>
                  (case logQuery e COMMIT w2 of
                     (Inl err, w3) \<Rightarrow> rollback e w err w3
                   | (Inr u, w3) \<Rightarrow> (Inr result, w3)))))"

section \<open>Storage and text extraction (routes/applications.js)\<close>

definition getPublicUrl :: "env \<Rightarrow> string \<Rightarrow> string" where
  "getPublicUrl e path = supabase_url e @ ''/storage/v1/object/public/cvs/'' @ path"

text \<open>\<^verbatim>\<open>uploadToSupabaseStorage\<close>: with \<^verbatim>\<open>upsert: false\<close> an existing key is an error;
  a returned error is thrown, and every throw is logged and rethrown.\<close>

definition uploadToSupabaseStorage :: "env \<Rightarrow> string \<Rightarrow> world \<Rightarrow> (error + string) \<times> world" where
  "uploadToSupabaseStorage e fileName w =
     (case storage_upload e of
        Throws m \<Rightarrow>
          (Inl (Error m),
           console_dot_error ''Error en uploadToSupabaseStorage'' (emit (StorageUpload fileName) w))
      | ReturnsError m \<Rightarrow>
          (Inl (Error (''Error subiendo archivo: '' @ m)),
           console_dot_error ''Error en uploadToSupabaseStorage'' (emit (StorageUpload fileName) w))
      | Done \<Rightarrow>
          if fileName \<in> set (bucket w)
          then (Inl (Error ''Error subiendo archivo: The resource already exists''),
                console_dot_error ''Error en uploadToSupabaseStorage''
                  (emit (StorageUpload fileName) w))
          else (Inr (getPublicUrl e fileName),
                (emit (StorageUpload fileName) w)\<lparr>bucket := bucket w @ [fileName]\<rparr>))"

text \<open>\<^verbatim>\<open>await supabase.storage.from('cvs').remove([key])\<close>, whose resolved value the
  routes of this file do not read.\<close>

definition storage_remove_key :: "env \<Rightarrow> string \<Rightarrow> world \<Rightarrow> (error + unit) \<times> world" where
  "storage_remove_key e key w =
     (case storage_remove e of
        Throws m \<Rightarrow> (Inl (Error m), emit (StorageRemove key) w)
      | ReturnsError m \<Rightarrow> (Inr (), emit (StorageRemove key) w)
      | Done \<Rightarrow> (Inr (), (emit (StorageRemove key) w)\<lparr>bucket := removeAll key (bucket w)\<rparr>))"

definition extractTextFromPDF :: "env \<Rightarrow> world \<Rightarrow> (error + string) \<times> world" where
  "extractTextFromPDF e w =
     (case pdfParse e of
        None \<Rightarrow>
          (Inl (Error ''No se pudo extraer texto del PDF''),
           console_dot_error ''Error extrayendo texto del PDF'' (emit PdfParse w))
      | Some t \<Rightarrow> (Inr t, emit PdfParse w))"

section \<open>POST /api/applications (routes/applications.js)\<close>

record upload =
  mimetype :: string
  buffer :: string

record request =
  req_file :: "upload option"
  jobRoleId :: uuid
  candidateName :: string
  candidateEmail :: string
  candidatePhone :: "string option"

text \<open>\<^verbatim>\<open>upload.single('cv')\<close>: the file filter refuses any type but PDF, the size limit
  refuses a file that reaches it; multer hands either error to \<^verbatim>\<open>next\<close>, so the
  route's handler, and its \<^verbatim>\<open>try\<close>, never run.\<close>

definition upload_single :: "env \<Rightarrow> request \<Rightarrow> error + request" where
  "upload_single e req =
     (case req_file req of
        None \<Rightarrow> Inr req
      | Some f \<Rightarrow>
          if mimetype f \<noteq> ''application/pdf'' then Inl (Error ''Solo se permiten archivos PDF'')
          else if max_file_size e \<le> length (buffer f) then Inl (Error ''File too large'')
          else Inr req)"

text \<open>The error-handling middleware of the server file: neither error above has a
  \<^verbatim>\<open>status\<close>, so the response is \<^verbatim>\<open>err.status || 500\<close> with the error's message.\<close>

definition error_middleware :: "error \<Rightarrow> world \<Rightarrow> response \<times> world" where
  "error_middleware err w =
     respond 500
       (if error_message err = [] then ''Error interno del servidor'' else error_message err)
       (console_dot_error ''Error:'' w)"

text \<open>\<^verbatim>\<open>candidateName.replace(/[^a-zA-Z0-9]/g, '_')\<close>\<close>

definition sanitize :: "string \<Rightarrow> string" where
  "sanitize s =
     map (\<lambda>c. let n = (of_char c :: nat)
              in if (48 \<le> n \<and> n \<le> 57) \<or> (65 \<le> n \<and> n \<le> 90) \<or> (97 \<le> n \<and> n \<le> 122)
                 then c else CHR ''_'') s"

definition uniqueFileName :: "env \<Rightarrow> request \<Rightarrow> string" where
  "uniqueFileName e req = uuidv4 e @ ''_'' @ sanitize (candidateName req) @ ''.pdf''"

text \<open>The \<^verbatim>\<open>INSERT\<close> of the application: the row gets a generated id and the default
  status. It rejects on a primary key already there and on a job role that is not.\<close>

definition insert_application ::
  "env \<Rightarrow> request \<Rightarrow> string \<Rightarrow> string \<Rightarrow> world \<Rightarrow> (error + application) \<times> world" where
  "insert_application e req cvFilePath cvText w =
     (case client_query e InsertApplication w of
        (Inl err, w1) \<Rightarrow> (Inl err, w1)
      | (Inr u, w1) \<Rightarrow>
          if uuid_generate_v4 e \<in> set (map app_id (applications w1))
          then (Inl (Error ''duplicate key value violates unique constraint''), w1)
          else if jobRoleId req \<in> set (map jr_id (job_roles w1))
          then
            (let row = \<lparr>app_id = uuid_generate_v4 e, job_role_id = jobRoleId req,
                        candidate_name = candidateName req,
                        candidate_email = candidateEmail req,
                        candidate_phone = candidatePhone req,
                        cv_file_path = cvFilePath, cv_text = Some cvText,
                        app_status = ''pending''\<rparr>
             in (Inr row, w1\<lparr>applications := applications w1 @ [row]\<rparr>))
          else (Inl (Error ''violates foreign key constraint''), w1))"

definition setImmediate :: "immediate \<Rightarrow> world \<Rightarrow> world" where
  "setImmediate task w =
     (case task of
        Immediate applicationId cvText description \<Rightarrow>
          (emit (SetImmediate applicationId) w)\<lparr>immediates := immediates w @ [task]\<rparr>)"

text \<open>The application ids that a list of calls hands to \<^verbatim>\<open>setImmediate\<close>, in order.\<close>

fun dispatched :: "call list \<Rightarrow> uuid list" where
  "dispatched [] = []"
| "dispatched (SetImmediate applicationId # cs) = applicationId # dispatched cs"
| "dispatched (c # cs) = dispatched cs"

text \<open>A step from \<open>w\<close> to \<open>w'\<close> that queues nothing and leaves the applications as they
  were: the queue is the same, and no call it adds is a \<^verbatim>\<open>setImmediate\<close>.\<close>

definition quiet :: "world \<Rightarrow> world \<Rightarrow> bool" where
  "quiet w w' =
     (immediates w' = immediates w \<and> applications w' = applications w
      \<and> (\<exists>cs. calls w' = calls w @ cs \<and> dispatched cs = []))"

text \<open>The \<^verbatim>\<open>try\<close> block of the transaction callback (lines 170 to 220). The third
  component is \<^verbatim>\<open>cvFilePath\<close> as the block leaves it: empty until the upload has
  returned.\<close>

definition create_try ::
  "env \<Rightarrow> request \<Rightarrow> job_role \<Rightarrow> world \<Rightarrow> ((error + application) \<times> world) \<times> string" where
  "create_try e req jobRole w =
     (case uploadToSupabaseStorage e (uniqueFileName e req) w of
        (Inl err, w1) \<Rightarrow> ((Inl err, w1), [])
      | (Inr cvFilePath, w1) \<Rightarrow>
          (case extractTextFromPDF e w1 of
             (Inl err, w2) \<Rightarrow> ((Inl err, w2), cvFilePath)
           | (Inr cvText, w2) \<Rightarrow>
               (case insert_application e req cvFilePath cvText w2 of
                  (Inl err, w3) \<Rightarrow> ((Inl err, w3), cvFilePath)
                | (Inr row, w3) \<Rightarrow>
                    ((Inr row,
                      setImmediate (Immediate (app_id row) cvText (jr_description jobRole)) w3),
                     cvFilePath))))"

text \<open>The callback with its \<^verbatim>\<open>catch\<close> (lines 221 to 233): when \<^verbatim>\<open>cvFilePath\<close> is set,
  the uploaded key is removed; a throw of that removal is logged; the error is rethrown.\<close>

definition create_callback ::
  "env \<Rightarrow> request \<Rightarrow> job_role \<Rightarrow> world \<Rightarrow> (error + application) \<times> world" where
  "create_callback e req jobRole w =
     (case create_try e req jobRole w of
        ((Inr row, w1), cvFilePath) \<Rightarrow> (Inr row, w1)
      | ((Inl err, w1), cvFilePath) \<Rightarrow>
          if cvFilePath \<noteq> []
          then
            (case storage_remove_key e (uniqueFileName e req) w1 of
               (Inl cleanupError, w2) \<Rightarrow> (Inl err, console_dot_error ''Error limpiando archivo:'' w2)
             | (Inr u, w2) \<Rightarrow> (Inl err, w2))
          else (Inl err, w1))"

text \<open>The outer \<^verbatim>\<open>catch\<close> of the handler (lines 248 to 266).\<close>

definition create_catch :: "error \<Rightarrow> world \<Rightarrow> response \<times> world" where
  "create_catch err w =
     (if str_includes (error_message err) ''Solo se permiten archivos PDF''
      then respond 400 ''Solo se permiten archivos PDF''
             (console_dot_error ''Error creando aplicacion:'' w)
      else respond 500 ''Error interno del servidor''
             (console_dot_error ''Error creando aplicacion:'' w))"

definition select_active_role :: "world \<Rightarrow> uuid \<Rightarrow> job_role list" where
  "select_active_role w rid =
     filter (\<lambda>jr. jr_id jr = rid \<and> jr_status jr = ''active'') (job_roles w)"

definition select_existing_application :: "world \<Rightarrow> uuid \<Rightarrow> string \<Rightarrow> application list" where
  "select_existing_application w rid email =
     filter (\<lambda>a. job_role_id a = rid \<and> candidate_email a = email) (applications w)"

text \<open>The handler (lines 104 to 267), after multer.\<close>

definition create_handler :: "env \<Rightarrow> request \<Rightarrow> world \<Rightarrow> response \<times> world" where
  "create_handler e req w =
     (if req_file req = None then respond 400 ''Archivo CV requerido'' w
      else
        (case validationError e of
           Some m \<Rightarrow> respond 400 m w
         | None \<Rightarrow>
             (case query e SelectActiveRole w of
                (Inl err, w1) \<Rightarrow> create_catch err w1
              | (Inr u, w1) \<Rightarrow>
                  (case select_active_role w1 (jobRoleId req) of
                     [] \<Rightarrow> respond 404 ''Rol no encontrado o no esta activo'' w1
                   | jobRole # others \<Rightarrow>
                       (case query e SelectExistingApplication w1 of
                          (Inl err, w2) \<Rightarrow> create_catch err w2
                        | (Inr u, w2) \<Rightarrow>
                            if select_existing_application w2 (jobRoleId req) (candidateEmail req) \<noteq> []
                            then respond 409
                                   ''Ya existe una aplicacion de este candidato para este rol'' w2
                            else
                              (case transaction e (create_callback e req jobRole) w2 of
                                 (Inl err, w3) \<Rightarrow> create_catch err w3
                               | (Inr row, w3) \<Rightarrow>
                                   (\<lparr>status = 201,
                                     message = ''Aplicacion creada exitosamente. La evaluacion se procesara en breve.'',
                                     res_application = Some (row\<lparr>cv_text := None\<rparr>),
                                     res_evaluation = None\<rparr>,
                                    emit (Respond 201) w3)))))))"

definition POST_applications :: "env \<Rightarrow> request \<Rightarrow> world \<Rightarrow> response \<times> world" where
  "POST_applications e req w =
     (case upload_single e req of
        Inl err \<Rightarrow> error_middleware err w
      | Inr req1 \<Rightarrow> create_handler e req1 w)"

text \<open>
  The queued callback (lines 194 to 218), run later by the event loop:
  \<^verbatim>\<open>evaluateCV\<close> (the call to the provider, and the lines the client logs), then the
  \<^verbatim>\<open>INSERT\<close> of the evaluation on the pool. The statement
  rejects on an application that is not there (foreign key) and on a score that is not
  an integer from 0 to 100 (column type and check). Any throw is logged, nothing more.
\<close>

definition insert_evaluation ::
  "env \<Rightarrow> uuid \<Rightarrow> evaluation \<Rightarrow> string \<Rightarrow> world \<Rightarrow> (error + evaluation_row) \<times> world" where
  "insert_evaluation e applicationId ev model w =
     (case query e InsertEvaluation w of
        (Inl err, w1) \<Rightarrow> (Inl err, w1)
      | (Inr u, w1) \<Rightarrow>
          (case score ev of
             NaN \<Rightarrow>
               (Inl (Error ''invalid input syntax for type integer''),
                console_dot_error ''Error en consulta SQL'' w1)
           | Number n \<Rightarrow>
               if n < 0 then
                 (Inl (Error ''violates check constraint''),
                  console_dot_error ''Error en consulta SQL'' w1)
               else if 100 < n then
                 (Inl (Error ''violates check constraint''),
                  console_dot_error ''Error en consulta SQL'' w1)
               else if applicationId \<in> set (map app_id (applications w1)) then
                 (let row = \<lparr>ev_application_id = applicationId, ev_score = n,
                             ev_strengths = strengths ev, ev_weaknesses = weaknesses ev,
                             ev_summary = summary ev, ev_model_used = model\<rparr>
                  in (Inr row, w1\<lparr>evaluations := evaluations w1 @ [row]\<rparr>))
               else
                 (Inl (Error ''violates foreign key constraint''),
                  console_dot_error ''Error en consulta SQL'' w1)))"

text \<open>The world after the background task has awaited \<^verbatim>\<open>evaluateCV\<close>: the call to the
  provider is made and the client's \<^verbatim>\<open>console.error\<close> lines are written.\<close>

definition scored_by_groq :: "env \<Rightarrow> string \<Rightarrow> string \<Rightarrow> world \<Rightarrow> world" where
  "scored_by_groq e cvText description w =
     console_dot_errors (evaluateCV_console (groq_create e) (JSON_parse e) cvText description)
       (emit GroqCreate w)"

definition run_immediate :: "env \<Rightarrow> immediate \<Rightarrow> world \<Rightarrow> world" where
  "run_immediate e task w =
     (case task of
        Immediate applicationId cvText description \<Rightarrow>
          (case evaluateCV (groq_create e) (JSON_parse e) cvText description of
             Inl evalError \<Rightarrow>
               console_dot_error ''Error evaluando CV'' (scored_by_groq e cvText description w)
           | Inr ev \<Rightarrow>
               (case insert_evaluation e applicationId ev ''llama-3.1-8b-instant''
                       (scored_by_groq e cvText description w) of
                  (Inl evalError, w1) \<Rightarrow> console_dot_error ''Error evaluando CV'' w1
                | (Inr row, w1) \<Rightarrow> w1)))"

text \<open>The event loop takes the first queued callback, when there is one.\<close>

definition run_next_immediate :: "env \<Rightarrow> world \<Rightarrow> world" where
  "run_next_immediate e w =
     (case immediates w of
        [] \<Rightarrow> w
      | task # rest \<Rightarrow> run_immediate e task (w\<lparr>immediates := rest\<rparr>))"

section \<open>PUT and DELETE /api/applications/:id (routes/applications.js)\<close>

text \<open>The rows of \<^verbatim>\<open>applications a JOIN job_roles jr ON a.job_role_id = jr.id WHERE a.id = $1\<close>.\<close>

definition select_application_join :: "world \<Rightarrow> uuid \<Rightarrow> (application \<times> job_role) list" where
  "select_application_join w aid =
     concat (map (\<lambda>a. map (\<lambda>jr. (a, jr)) (filter (\<lambda>jr. jr_id jr = job_role_id a) (job_roles w)))
                 (filter (\<lambda>a. app_id a = aid) (applications w)))"

text \<open>\<^verbatim>\<open>req.user.profile?.role !== 'admin' && job_creator_id !== req.user.id\<close>\<close>

definition not_permitted :: "user \<Rightarrow> job_role \<Rightarrow> bool" where
  "not_permitted u jr = (profile_role u \<noteq> Some ''admin'' \<and> jr_created_by jr \<noteq> user_id u)"

text \<open>The body that \<^verbatim>\<open>updateApplicationSchema\<close> accepts: four optional properties.\<close>

record update_body =
  upd_status :: "string option"
  upd_candidateName :: "string option"
  upd_candidateEmail :: "string option"
  upd_candidatePhone :: "string option"

text \<open>The \<^verbatim>\<open>SET\<close> list built from the properties that are defined.\<close>

definition apply_update :: "update_body \<Rightarrow> application \<Rightarrow> application" where
  "apply_update b a =
     a\<lparr>app_status := (case upd_status b of None \<Rightarrow> app_status a | Some s \<Rightarrow> s),
       candidate_name := (case upd_candidateName b of None \<Rightarrow> candidate_name a | Some s \<Rightarrow> s),
       candidate_email := (case upd_candidateEmail b of None \<Rightarrow> candidate_email a | Some s \<Rightarrow> s),
       candidate_phone := (case upd_candidatePhone b of None \<Rightarrow> candidate_phone a | Some s \<Rightarrow> Some s)\<rparr>"

definition no_updates :: "update_body \<Rightarrow> bool" where
  "no_updates b =
     (upd_status b = None \<and> upd_candidateName b = None \<and> upd_candidateEmail b = None
      \<and> upd_candidatePhone b = None)"

definition update_catch :: "error \<Rightarrow> world \<Rightarrow> response \<times> world" where
  "update_catch err w =
     respond 500 ''Error interno del servidor'' (console_dot_error ''Error actualizando aplicacion:'' w)"

definition PUT_application :: "env \<Rightarrow> uuid \<Rightarrow> update_body \<Rightarrow> world \<Rightarrow> response \<times> world" where
  "PUT_application e aid body w =
     (case authenticated e of
        None \<Rightarrow> respond 401 ''Token de acceso requerido'' w
      | Some u \<Rightarrow>
          (case validationError e of
             Some m \<Rightarrow> respond 400 m w
           | None \<Rightarrow>
               (case query e SelectApplicationJoin w of
                  (Inl err, w1) \<Rightarrow> update_catch err w1
                | (Inr un, w1) \<Rightarrow>
                    (case select_application_join w1 aid of
                       [] \<Rightarrow> respond 404 ''Aplicacion no encontrada'' w1
                     | (application, jr) # others \<Rightarrow>
                         if not_permitted u jr
                         then respond 403 ''No tienes permisos para editar esta aplicacion'' w1
                         else if no_updates body
                         then respond 400 ''No hay campos para actualizar'' w1
                         else
                           (case query e UpdateApplication w1 of
                              (Inl err, w2) \<Rightarrow> update_catch err w2
                            | (Inr un, w2) \<Rightarrow>
                                (\<lparr>status = 200, message = ''Aplicacion actualizada exitosamente'',
                                  res_application =
                                    (case filter (\<lambda>a. app_id a = aid) (applications w2) of
                                       [] \<Rightarrow> None | a # rest \<Rightarrow> Some (apply_update body a)),
                                  res_evaluation = None\<rparr>,
                                 emit (Respond 200)
                                   (w2\<lparr>applications :=
                                         map (\<lambda>a. if app_id a = aid then apply_update body a else a)
                                             (applications w2)\<rparr>)))))))"

text \<open>\<^verbatim>\<open>path.split('/').pop()\<close>: what follows the last slash.\<close>

definition last_segment :: "string \<Rightarrow> string" where
  "last_segment s = rev (takeWhile (\<lambda>c. c \<noteq> CHR ''/'') (rev s))"

text \<open>The transaction callback of the delete route (lines 578 to 597): both
  \<^verbatim>\<open>DELETE\<close> statements, then the removal of the stored file, whose throw is logged.\<close>

definition delete_callback :: "env \<Rightarrow> uuid \<Rightarrow> application \<Rightarrow> world \<Rightarrow> (error + unit) \<times> world" where
  "delete_callback e aid application w =
     (case client_query e DeleteEvaluations w of
        (Inl err, w1) \<Rightarrow> (Inl err, w1)
      | (Inr un, w1) \<Rightarrow>
          (case client_query e DeleteApplication
                  (w1\<lparr>evaluations := filter (\<lambda>r. ev_application_id r \<noteq> aid) (evaluations w1)\<rparr>) of
             (Inl err, w2) \<Rightarrow> (Inl err, w2)
           | (Inr un, w2) \<Rightarrow>
               (let w3 = w2\<lparr>applications := filter (\<lambda>a. app_id a \<noteq> aid) (applications w2)\<rparr>
                in if cv_file_path application \<noteq> []
                   then
                     (case storage_remove_key e (last_segment (cv_file_path application)) w3 of
                        (Inl storageError, w4) \<Rightarrow>
                          (Inr (), console_dot_error ''Error eliminando archivo del storage:'' w4)
                      | (Inr un, w4) \<Rightarrow> (Inr (), w4))
                   else (Inr (), w3))))"

definition delete_catch :: "error \<Rightarrow> world \<Rightarrow> response \<times> world" where
  "delete_catch err w =
     respond 500 ''Error interno del servidor'' (console_dot_error ''Error eliminando aplicacion:'' w)"

definition DELETE_application :: "env \<Rightarrow> uuid \<Rightarrow> world \<Rightarrow> response \<times> world" where
  "DELETE_application e aid w =
     (case authenticated e of
        None \<Rightarrow> respond 401 ''Token de acceso requerido'' w
      | Some u \<Rightarrow>
          (case query e SelectApplicationJoin w of
             (Inl err, w1) \<Rightarrow> delete_catch err w1
           | (Inr un, w1) \<Rightarrow>
               (case select_application_join w1 aid of
                  [] \<Rightarrow> respond 404 ''Aplicacion no encontrada'' w1
                | (application, jr) # others \<Rightarrow>
                    if not_permitted u jr
                    then respond 403 ''No tienes permisos para eliminar esta aplicacion'' w1
                    else
                      (case transaction e (delete_callback e aid application) w1 of
                         (Inl err, w2) \<Rightarrow> delete_catch err w2
                       | (Inr un, w2) \<Rightarrow> respond 200 ''Aplicacion eliminada exitosamente'' w2))))"

section \<open>POST /api/evaluations/reevaluate (routes/evaluations.js)\<close>

definition MODEL_TEXT :: string where
  "MODEL_TEXT = ''gemini-1.5-flash''"

text \<open>The \<^verbatim>\<open>UPDATE\<close> of the evaluation rows of one application; the first row is returned.\<close>

definition update_evaluation ::
  "env \<Rightarrow> uuid \<Rightarrow> evaluation \<Rightarrow> string \<Rightarrow> world \<Rightarrow> (error + evaluation_row option) \<times> world" where
  "update_evaluation e applicationId ev model w =
     (case query e UpdateEvaluation w of
        (Inl err, w1) \<Rightarrow> (Inl err, w1)
      | (Inr un, w1) \<Rightarrow>
          (case score ev of
             NaN \<Rightarrow>
               (Inl (Error ''invalid input syntax for type integer''),
                console_dot_error ''Error en consulta SQL'' w1)
           | Number n \<Rightarrow>
               if n < 0 then
                 (Inl (Error ''violates check constraint''),
                  console_dot_error ''Error en consulta SQL'' w1)
               else if 100 < n then
                 (Inl (Error ''violates check constraint''),
                  console_dot_error ''Error en consulta SQL'' w1)
               else
                 (let row = \<lparr>ev_application_id = applicationId, ev_score = n,
                             ev_strengths = strengths ev, ev_weaknesses = weaknesses ev,
                             ev_summary = summary ev, ev_model_used = model\<rparr>
                  in (Inr (if filter (\<lambda>r. ev_application_id r = applicationId) (evaluations w1) = []
                           then None else Some row),
                      w1\<lparr>evaluations :=
                           map (\<lambda>r. if ev_application_id r = applicationId then row else r)
                               (evaluations w1)\<rparr>))))"

text \<open>The world after reevaluate has awaited \<^verbatim>\<open>evaluateCVWithText\<close>: the call to the
  provider is made and the client's \<^verbatim>\<open>console.error\<close> line is written.\<close>

definition scored_by_gemini :: "env \<Rightarrow> string \<Rightarrow> string \<Rightarrow> world \<Rightarrow> world" where
  "scored_by_gemini e cvText description w =
     console_dot_errors
       (evaluateCVWithText_console (generateContent e) (JSON_parse e) cvText description)
       (emit GeminiGenerate w)"

text \<open>The inner \<^verbatim>\<open>try\<close> of the handler (lines 336 to 398).\<close>

definition reevaluate_try ::
  "env \<Rightarrow> uuid \<Rightarrow> string \<Rightarrow> string \<Rightarrow> world \<Rightarrow> (error + evaluation_row option) \<times> world" where
  "reevaluate_try e applicationId cvText description w =
     (case evaluateCVWithText (generateContent e) (JSON_parse e) cvText description of
        Inl err \<Rightarrow> (Inl err, scored_by_gemini e cvText description w)
      | Inr ev \<Rightarrow>
          (case query e SelectEvaluation (scored_by_gemini e cvText description w) of
             (Inl err, w1) \<Rightarrow> (Inl err, w1)
           | (Inr un, w1) \<Rightarrow>
               if filter (\<lambda>r. ev_application_id r = applicationId) (evaluations w1) \<noteq> []
               then update_evaluation e applicationId ev MODEL_TEXT w1
               else
                 (case insert_evaluation e applicationId ev MODEL_TEXT w1 of
                    (Inl err, w2) \<Rightarrow> (Inl err, w2)
                  | (Inr row, w2) \<Rightarrow> (Inr (Some row), w2))))"

definition POST_reevaluate :: "env \<Rightarrow> uuid \<Rightarrow> world \<Rightarrow> response \<times> world" where
  "POST_reevaluate e applicationId w =
     (case authenticated e of
        None \<Rightarrow> respond 401 ''Token de acceso requerido'' w
      | Some u \<Rightarrow>
          (case validationError e of
             Some m \<Rightarrow> respond 400 m w
           | None \<Rightarrow>
               (case query e SelectApplicationJoin w of
                  (Inl err, w1) \<Rightarrow>
                    respond 500 ''Error interno del servidor''
                      (console_dot_error ''Error en re-evaluacion:'' w1)
                | (Inr un, w1) \<Rightarrow>
                    (case select_application_join w1 applicationId of
                       [] \<Rightarrow> respond 404 ''Aplicacion no encontrada'' w1
                     | (application, jr) # others \<Rightarrow>
                         if not_permitted u jr
                         then respond 403 ''No tienes permisos para re-evaluar esta aplicacion'' w1
                         else
                           (case cv_text application of
                              None \<Rightarrow> respond 400 ''No hay texto del CV disponible para evaluar'' w1
                            | Some cvText \<Rightarrow>
                                if cvText = []
                                then respond 400 ''No hay texto del CV disponible para evaluar'' w1
                                else
                                  (case reevaluate_try e applicationId cvText (jr_description jr) w1 of
                                     (Inl evalError, w2) \<Rightarrow>
                                       respond 500 ''Error procesando la evaluacion del CV''
                                         (console_dot_error ''Error re-evaluando CV'' w2)
                                   | (Inr row, w2) \<Rightarrow>
                                       (\<lparr>status = 200, message = ''CV re-evaluado exitosamente'',
                                         res_application = None, res_evaluation = row\<rparr>,
                                        emit (Respond 200) w2)))))))"

section \<open>Example inputs\<close>

text \<open>Texts an upstream model can answer with, and \<^verbatim>\<open>JSON.parse\<close> on exactly these
  texts (any other text is used in no example).\<close>

definition response_one_strength :: string where
  \<open>response_one_strength = ''{"score":80,"strengths":["React"],"weaknesses":[]}''\<close>

definition response_score_word :: string where
  \<open>response_score_word =
     ''{"score":"alto","strengths":["React","Node.js"],"weaknesses":["Testing","Docker"]}''\<close>

definition response_score_zero :: string where
  \<open>response_score_zero =
     ''{"score":0,"strengths":["React","Node.js"],"weaknesses":["Testing","Docker"]}''\<close>

definition response_not_json :: string where
  "response_not_json = ''No puedo evaluar este CV''"

definition JSON_parse_examples :: "string \<Rightarrow> jsval option" where
  "JSON_parse_examples s =
     (if s = response_one_strength
      then Some (JObj [(''score'', JNum ''80''), (''strengths'', JArr [JStr ''React'']),
                       (''weaknesses'', JArr [])])
      else if s = response_score_word
      then Some (JObj [(''score'', JStr ''alto''),
                       (''strengths'', JArr [JStr ''React'', JStr ''Node.js'']),
                       (''weaknesses'', JArr [JStr ''Testing'', JStr ''Docker''])])
      else if s = response_score_zero
      then Some (JObj [(''score'', JNum ''0''),
                       (''strengths'', JArr [JStr ''React'', JStr ''Node.js'']),
                       (''weaknesses'', JArr [JStr ''Testing'', JStr ''Docker''])])
      else None)"

text \<open>A recruiter, an active job role of theirs, and a store that holds nothing else.\<close>

definition recruiter :: user where
  "recruiter = \<lparr>user_id = ''0b2f6c1e-1111-4a6b-9c3d-000000000001'', profile_role = Some ''recruiter''\<rparr>"

definition role_R1 :: job_role where
  "role_R1 =
     \<lparr>jr_id = ''7d9a3f10-2222-4b7c-8d4e-000000000002'',
      jr_description = ''Desarrollador full stack con React y Node.js'',
      jr_status = ''active'',
      jr_created_by = ''0b2f6c1e-1111-4a6b-9c3d-000000000001''\<rparr>"

definition world0 :: world where
  "world0 =
     \<lparr>job_roles = [role_R1], applications = [], evaluations = [], bucket = [],
      console_error = [], immediates = [], calls = []\<rparr>"

text \<open>An environment in which every collaborator answers, except the two AI providers,
  whose calls time out.\<close>

definition env0 :: env where
  "env0 =
     \<lparr>sql_rejects = (\<lambda>stmt. False), connect_rejects = False, validationError = None,
      uuidv4 = ''c4e8a2b6-3333-4c8d-9e5f-000000000003'',
      uuid_generate_v4 = ''a1a1a1a1-4444-4d9e-8f60-000000000004'',
      storage_upload = Done, storage_remove = Done,
      pdfParse = Some ''Ana Diaz. 3 anos con React y Node.js'',
      supabase_url = ''https://project.supabase.co'',
      max_file_size = 10485760,
      authenticated = Some recruiter,
      groq_create = (\<lambda>cvText jobDescription. Rejects (Error ''timeout'')),
      generateContent = (\<lambda>cvText jobDescription. GenRejects (Error ''timeout'')),
      JSON_parse = JSON_parse_examples\<rparr>"

definition request_A :: request where
  "request_A =
     \<lparr>req_file = Some \<lparr>mimetype = ''application/pdf'', buffer = ''%PDF-1.4 Ana''\<rparr>,
      jobRoleId = ''7d9a3f10-2222-4b7c-8d4e-000000000002'',
      candidateName = ''Ana Diaz'', candidateEmail = ''a@x.com'', candidatePhone = None\<rparr>"

definition key_A :: string where
  "key_A = ''c4e8a2b6-3333-4c8d-9e5f-000000000003_Ana_Diaz.pdf''"

text \<open>A second candidate for the same role, and the identifiers drawn for them.\<close>

definition env_B :: env where
  "env_B = env0\<lparr>uuidv4 := ''d5f9b3c7-5555-4e0f-8a71-000000000005'',
                 uuid_generate_v4 := ''b2b2b2b2-6666-4f1a-9b82-000000000006'',
                 pdfParse := Some ''Bea Gil. 5 anos con Java''\<rparr>"

definition request_B :: request where
  "request_B =
     \<lparr>req_file = Some \<lparr>mimetype = ''application/pdf'', buffer = ''%PDF-1.4 Bea''\<rparr>,
      jobRoleId = ''7d9a3f10-2222-4b7c-8d4e-000000000002'',
      candidateName = ''Bea Gil'', candidateEmail = ''b@x.com'', candidatePhone = None\<rparr>"

definition email_of_A :: update_body where
  "email_of_A =
     \<lparr>upd_status = None, upd_candidateName = None, upd_candidateEmail = Some ''a@x.com'',
      upd_candidatePhone = None\<rparr>"

text \<open>The store after the submission of \<open>request_A\<close> has committed and its evaluation
  has been written: one application, its file, one evaluation.\<close>

definition application_A :: application where
  "application_A =
     \<lparr>app_id = ''a1a1a1a1-4444-4d9e-8f60-000000000004'',
      job_role_id = ''7d9a3f10-2222-4b7c-8d4e-000000000002'',
      candidate_name = ''Ana Diaz'', candidate_email = ''a@x.com'', candidate_phone = None,
      cv_file_path = ''https://project.supabase.co/storage/v1/object/public/cvs/c4e8a2b6-3333-4c8d-9e5f-000000000003_Ana_Diaz.pdf'',
      cv_text = Some ''Ana Diaz. 3 anos con React y Node.js'',
      app_status = ''pending''\<rparr>"

definition evaluation_A :: evaluation_row where
  "evaluation_A =
     \<lparr>ev_application_id = ''a1a1a1a1-4444-4d9e-8f60-000000000004'', ev_score = 85,
      ev_strengths = [JStr ''React'', JStr ''Node.js''], ev_weaknesses = [JStr ''Testing''],
      ev_summary = JStr ''Buen perfil'', ev_model_used = ''llama-3.1-8b-instant''\<rparr>"

definition world_A :: world where
  "world_A =
     \<lparr>job_roles = [role_R1], applications = [application_A], evaluations = [evaluation_A],
      bucket = [key_A], console_error = [], immediates = [], calls = []\<rparr>"

text \<open>The same application with no extracted text.\<close>

definition world_A_no_text :: world where
  "world_A_no_text = world_A\<lparr>applications := [application_A\<lparr>cv_text := Some []\<rparr>]\<rparr>"

section \<open>Properties of the scoring clients\<close>

lemma length_push_while_shorter:
  "length (push_while_shorter n filler xs) = max n (length xs)"
proof (induction n filler xs rule: push_while_shorter.induct)
  case (1 n filler xs)
  show ?case
  proof (cases "length xs < n")
    case True
    with "1" show ?thesis by (subst push_while_shorter.simps) simp
  next
    case False
    then show ?thesis by (subst push_while_shorter.simps) simp
  qed
qed

lemma clamp_score_range_of_option:
  "\<exists>n. clamp_score (case x of None \<Rightarrow> Number 0 | Some n \<Rightarrow> if n = 0 then Number 0 else Number n) = Number n
       \<and> 0 \<le> n \<and> n \<le> 100"
  by (cases x) auto

lemma normalizeEvaluation_shape:
  assumes "normalizeEvaluation v = Inr ev"
  shows "(\<exists>n. score ev = Number n \<and> 0 \<le> n \<and> n \<le> 100)
         \<and> length (strengths ev) = 3 \<and> length (weaknesses ev) = 3"
proof -
  from assms obtain parsed where ev:
    "ev = \<lparr>score = clamp_score (case parsed of
                                 None \<Rightarrow> Number 0
                               | Some n \<Rightarrow> if n = 0 then Number 0 else Number n),
         strengths = push_while_shorter 3 (JStr ''Analisis pendiente'')
                       (take 3 (case get_prop v ''strengths'' of JArr xs \<Rightarrow> xs | _ \<Rightarrow> [])),
         weaknesses = push_while_shorter 3 (JStr ''Informacion limitada'')
                        (take 3 (case get_prop v ''weaknesses'' of JArr xs \<Rightarrow> xs | _ \<Rightarrow> [])),
         summary = (if truthy (get_prop v ''summary'') then get_prop v ''summary''
                    else JStr ''Evaluacion completada automaticamente.'')\<rparr>"
    unfolding normalizeEvaluation_def
    by (cases "parseInt (get_prop v ''score'')") (auto split: if_splits)
  have "\<exists>n. score ev = Number n \<and> 0 \<le> n \<and> n \<le> 100"
    unfolding ev using clamp_score_range_of_option by simp
  moreover have "length (strengths ev) = 3"
    unfolding ev by (simp add: length_push_while_shorter)
  moreover have "length (weaknesses ev) = 3"
    unfolding ev by (simp add: length_push_while_shorter)
  ultimately show ?thesis by simp
qed

lemma gemini_fallback_shape:
  "score gemini_fallback = Number 0 \<and> length (strengths gemini_fallback) = 3
   \<and> length (weaknesses gemini_fallback) = 3"
  by (simp add: gemini_fallback_def)

lemma evaluateCVWithText_returns:
  "\<exists>ev. evaluateCVWithText g p cvText jobDescription = Inr ev"
  by (simp add: evaluateCVWithText_def split: sum.splits)

lemma evaluateCVWithText_shape:
  assumes "evaluateCVWithText g p cvText jobDescription = Inr ev"
  shows "(\<exists>n. score ev = Number n \<and> 0 \<le> n \<and> n \<le> 100)
         \<and> length (strengths ev) = 3 \<and> length (weaknesses ev) = 3"
proof (cases "evaluateCVWithText_try p (g cvText jobDescription)")
  case (Inl err)
  with assms have "ev = gemini_fallback" by (simp add: evaluateCVWithText_def)
  then show ?thesis using gemini_fallback_shape by simp
next
  case (Inr ev')
  with assms have eq: "ev' = ev" by (simp add: evaluateCVWithText_def)
  from Inr obtain v where "normalizeEvaluation v = Inr ev'"
    by (auto simp: evaluateCVWithText_try_def split: generation.splits option.splits)
  then show ?thesis using normalizeEvaluation_shape eq by blast
qed

lemma length_take2_or_pair:
  "length (case v of JArr xs \<Rightarrow> take 2 xs | _ \<Rightarrow> [a, b]) \<le> 2"
  by (cases v) simp_all

lemma evaluateCV_parse_lengths:
  assumes "evaluateCV_parse p s = Inr ev"
  shows "length (strengths ev) \<le> 2 \<and> length (weaknesses ev) \<le> 2"
proof -
  from assms obtain v where
    "strengths ev = (case get_prop v ''strengths'' of
                       JArr xs \<Rightarrow> take 2 xs
                     | _ \<Rightarrow> [JStr ''Evaluacion pendiente'', JStr ''Requiere revision''])"
    "weaknesses ev = (case get_prop v ''weaknesses'' of
                        JArr xs \<Rightarrow> take 2 xs
                      | _ \<Rightarrow> [JStr ''Informacion limitada'', JStr ''Analisis incompleto''])"
    unfolding evaluateCV_parse_def
    by (cases "p s") (auto split: if_splits sum.splits)
  then show ?thesis using length_take2_or_pair by simp
qed

lemma evaluateCV_returns:
  "\<exists>ev. evaluateCV g p cvText jobDescription = Inr ev"
  by (simp add: evaluateCV_def split: sum.splits)

lemma evaluateCV_try_lengths:
  assumes "evaluateCV_try p c = Inr ev"
  shows "length (strengths ev) \<le> 2 \<and> length (weaknesses ev) \<le> 2"
proof -
  have fb: "length (strengths groq_parse_fallback) \<le> 2 \<and> length (weaknesses groq_parse_fallback) \<le> 2"
    by (simp add: groq_parse_fallback_def)
  from assms obtain s where "evaluateCV_parse p s = Inr ev \<or> ev = groq_parse_fallback"
    unfolding evaluateCV_try_def Let_def
    by (auto split: completion.splits option.splits if_splits sum.splits)
  then show ?thesis using fb evaluateCV_parse_lengths by blast
qed

lemma evaluateCV_lengths:
  assumes "evaluateCV g p cvText jobDescription = Inr ev"
  shows "length (strengths ev) \<le> 2 \<and> length (weaknesses ev) \<le> 2"
proof (cases "evaluateCV_try p (g cvText jobDescription)")
  case (Inl err)
  with assms have "ev = groq_error_fallback" by (simp add: evaluateCV_def)
  then show ?thesis by (simp add: groq_error_fallback_def)
next
  case (Inr ev')
  with assms have "ev' = ev" by (simp add: evaluateCV_def)
  with Inr show ?thesis using evaluateCV_try_lengths by blast
qed

text \<open>
  Claim C1: for every upstream response the scoring client returns an integer score
  from 0 to 100 and lists of exactly N strengths and N weaknesses (2 for
  \<^verbatim>\<open>evaluateCV\<close>, 3 for \<^verbatim>\<open>evaluateCVWithText\<close>). The Gemini client does
  (\<open>evaluateCVWithText_shape\<close>); the Groq client only cuts its lists and lets \<^verbatim>\<open>NaN\<close>
  through: a well-formed answer with one strength and no weakness is returned with lists
  of length 1 and 0, and an answer whose score is the word \<^verbatim>\<open>alto\<close> is returned with the
  score \<^verbatim>\<open>NaN\<close>.
\<close>

theorem evaluateCV_short_lists_and_NaN:
  "evaluateCV (\<lambda>cvText jobDescription. Resolves (Some response_one_strength))
      JSON_parse_examples ''cv'' ''job''
     = Inr \<lparr>score = Number 80, strengths = [JStr ''React''], weaknesses = [],
            summary = JStr ''Evaluacion completada automaticamente''\<rparr>
   \<and> evaluateCV (\<lambda>cvText jobDescription. Resolves (Some response_score_word))
      JSON_parse_examples ''cv'' ''job''
     = Inr \<lparr>score = NaN, strengths = [JStr ''React'', JStr ''Node.js''],
            weaknesses = [JStr ''Testing'', JStr ''Docker''],
            summary = JStr ''Evaluacion completada automaticamente''\<rparr>"
  by code_simp

lemma evaluateCV_parse_falsy_score:
  assumes "p s = Some v" and "\<not> truthy (get_prop v ''score'')"
  shows "\<exists>err. evaluateCV_parse p s = Inl err"
  using assms by (simp add: evaluateCV_parse_def)

lemma evaluateCV_parse_syntax_error:
  assumes "p s = None"
  shows "\<exists>err. evaluateCV_parse p s = Inl err"
  using assms by (simp add: evaluateCV_parse_def)

lemma evaluateCV_parse_failure:
  assumes "g cvText jobDescription = Resolves (Some response)"
    and "response \<noteq> []"
    and "\<not> str_includes (toLowerCase (trim response)) ''safe''"
    and "evaluateCV_parse p (case match_braces (trim response) of
                               Some jsonMatch \<Rightarrow> jsonMatch | None \<Rightarrow> trim response) = Inl err"
  shows "evaluateCV g p cvText jobDescription = Inr groq_parse_fallback"
  using assms by (simp add: evaluateCV_def evaluateCV_try_def Let_def)

lemma evaluateCV_call_failure:
  assumes "g cvText jobDescription = Rejects err
           \<or> g cvText jobDescription = Resolves None
           \<or> g cvText jobDescription = Resolves (Some [])
           \<or> (\<exists>response. g cvText jobDescription = Resolves (Some response)
                \<and> str_includes (toLowerCase (trim response)) ''safe'')"
  shows "evaluateCV g p cvText jobDescription = Inr groq_error_fallback"
  using assms by (auto simp: evaluateCV_def evaluateCV_try_def Let_def)

lemma evaluateCVWithText_failure:
  assumes "g cvText jobDescription = GenRejects err
           \<or> (\<exists>t. g cvText jobDescription = GenText t \<and> p t = None)
           \<or> (\<exists>t v. g cvText jobDescription = GenText t \<and> p t = Some v
                \<and> normalizeEvaluation v = Inl err)"
  shows "evaluateCVWithText g p cvText jobDescription = Inr gemini_fallback"
  using assms by (auto simp: evaluateCVWithText_def evaluateCVWithText_try_def)

text \<open>
  Claim C10: for the Groq client there is a well-formed upstream answer, valid JSON whose
  score is 0 (or any falsy value) with non-empty strengths and weaknesses, that fails the
  completeness check \<^verbatim>\<open>!evaluation.score\<close> and is replaced by the parse fallback with
  score 50: a legitimate score of 0 is not returned as 0. Every answer that reaches
  \<^verbatim>\<open>JSON.parse\<close> and parses to a value whose score is falsy gives that fallback.
\<close>

theorem evaluateCV_falsy_score_gives_parse_fallback:
  assumes "g cvText jobDescription = Resolves (Some response)"
    and "response \<noteq> []"
    and "\<not> str_includes (toLowerCase (trim response)) ''safe''"
    and "p (case match_braces (trim response) of
              Some jsonMatch \<Rightarrow> jsonMatch | None \<Rightarrow> trim response) = Some v"
    and "\<not> truthy (get_prop v ''score'')"
  shows "evaluateCV g p cvText jobDescription = Inr groq_parse_fallback
         \<and> score groq_parse_fallback = Number 50"
proof -
  from assms(4,5) obtain err where
    "evaluateCV_parse p (case match_braces (trim response) of
                           Some jsonMatch \<Rightarrow> jsonMatch | None \<Rightarrow> trim response) = Inl err"
    using evaluateCV_parse_falsy_score by blast
  with assms(1-3) have "evaluateCV g p cvText jobDescription = Inr groq_parse_fallback"
    by (rule evaluateCV_parse_failure)
  then show ?thesis by (simp add: groq_parse_fallback_def)
qed

lemma response_score_zero_clean:
  "response_score_zero \<noteq> []"
  "\<not> str_includes (toLowerCase (trim response_score_zero)) ''safe''"
  "(case match_braces (trim response_score_zero) of
      Some jsonMatch \<Rightarrow> jsonMatch | None \<Rightarrow> trim response_score_zero) = response_score_zero"
  by code_simp+

theorem evaluateCV_falsy_score_gives_parse_fallback_witness:
  "get_prop (JObj [(''score'', JNum ''0''),
                   (''strengths'', JArr [JStr ''React'', JStr ''Node.js'']),
                   (''weaknesses'', JArr [JStr ''Testing'', JStr ''Docker''])]) ''score'' = JNum ''0''
   \<and> evaluateCV (\<lambda>cvText jobDescription. Resolves (Some response_score_zero))
         JSON_parse_examples ''cv'' ''job'' = Inr groq_parse_fallback
   \<and> score groq_parse_fallback = Number 50"
proof -
  let ?v = "JObj [(''score'', JNum ''0''),
                  (''strengths'', JArr [JStr ''React'', JStr ''Node.js'']),
                  (''weaknesses'', JArr [JStr ''Testing'', JStr ''Docker''])]"
  have parsed: "JSON_parse_examples
                  (case match_braces (trim response_score_zero) of
                     Some jsonMatch \<Rightarrow> jsonMatch | None \<Rightarrow> trim response_score_zero) = Some ?v"
    unfolding response_score_zero_clean(3) by code_simp
  have falsy: "\<not> truthy (get_prop ?v ''score'')" by simp
  have call: "(\<lambda>cvText jobDescription. Resolves (Some response_score_zero)) ''cv'' ''job''
                = Resolves (Some response_score_zero)"
    by simp
  show ?thesis
    using evaluateCV_falsy_score_gives_parse_fallback
            [where g = "\<lambda>cvText jobDescription. Resolves (Some response_score_zero)"
               and p = JSON_parse_examples,
             OF call response_score_zero_clean(1) response_score_zero_clean(2) parsed falsy]
    by simp
qed

lemma response_not_json_clean:
  "response_not_json \<noteq> []"
  "\<not> str_includes (toLowerCase (trim response_not_json)) ''safe''"
  "(case match_braces (trim response_not_json) of
      Some jsonMatch \<Rightarrow> jsonMatch | None \<Rightarrow> trim response_not_json) = response_not_json"
  "JSON_parse_examples response_not_json = None"
  by code_simp+

text \<open>
  Claim C2, as stated: on any failure the client returns the single fallback with score
  0. It does not: an answer of the Groq model that is not JSON is answered by the
  fallback of the inner \<^verbatim>\<open>catch\<close>, whose score is 50.
\<close>

theorem evaluateCV_malformed_answer_scores_50:
  "evaluateCV (\<lambda>cvText jobDescription. Resolves (Some response_not_json))
      JSON_parse_examples ''cv'' ''job'' = Inr groq_parse_fallback
   \<and> score groq_parse_fallback = Number 50
   \<and> groq_parse_fallback \<noteq> groq_error_fallback"
  by (simp add: evaluateCV_def evaluateCV_try_def Let_def response_not_json_clean
        evaluateCV_parse_def groq_parse_fallback_def groq_error_fallback_def)

lemma evaluateCV_parse_refuses:
  "(\<exists>err. evaluateCV_parse p s = Inl err)
   \<longleftrightarrow> (p s = None
        \<or> (\<exists>v. p s = Some v
             \<and> (\<not> truthy (get_prop v ''score'') \<or> \<not> truthy (get_prop v ''strengths'')
                  \<or> \<not> truthy (get_prop v ''weaknesses'')
                  \<or> ToString (get_prop v ''score'') = None)))"
proof (cases "p s")
  case None
  then show ?thesis by (simp add: evaluateCV_parse_def)
next
  case (Some v)
  show ?thesis
  proof (cases "v = JNull \<or> v = JUndefined")
    case True
    with Some show ?thesis by (auto simp: evaluateCV_parse_def)
  next
    case False
    with Some show ?thesis
      by (cases "ToString (get_prop v ''score'')") (simp_all add: evaluateCV_parse_def parseInt_def)
  qed
qed

lemma normalizeEvaluation_refuses:
  "(\<exists>err. normalizeEvaluation v = Inl err)
   \<longleftrightarrow> (\<not> has_prop ''score'' v \<or> \<not> has_prop ''strengths'' v \<or> \<not> has_prop ''weaknesses'' v
        \<or> ToString (get_prop v ''score'') = None)"
proof (cases v)
  case (JObj kvs)
  then show ?thesis
    by (cases "ToString (get_prop v ''score'')") (simp_all add: normalizeEvaluation_def parseInt_def)
qed (simp_all add: normalizeEvaluation_def)

text \<open>
  Claim C2, amended: neither client raises past its boundary, whatever the upstream does.
  The Groq client returns its fallback with score 0 when the call rejects, the content is
  missing or empty, or the text contains \<^verbatim>\<open>safe\<close>, and a second fixed fallback with
  score 50 when the text that reaches \<^verbatim>\<open>JSON.parse\<close> is not valid JSON, or the parsed
  value lacks a truthy score, strengths or weaknesses, or has a score that cannot be
  converted to a string. The Gemini client returns one fixed fallback with score 0 on
  every failure: a rejected call, a text that is not valid JSON, a parsed value without
  one of the keys score, strengths and weaknesses (no value but an object has them), or
  a score that cannot be converted to a string.
\<close>

theorem scoring_clients_return_and_fall_back:
  "(\<exists>ev. evaluateCV g p cvText jobDescription = Inr ev)
   \<and> (\<exists>ev. evaluateCVWithText g' p cvText jobDescription = Inr ev)
   \<and> (g cvText jobDescription = Rejects err
        \<or> g cvText jobDescription = Resolves None
        \<or> g cvText jobDescription = Resolves (Some [])
        \<or> (\<exists>response. g cvText jobDescription = Resolves (Some response)
             \<and> str_includes (toLowerCase (trim response)) ''safe'')
       \<longrightarrow> evaluateCV g p cvText jobDescription = Inr groq_error_fallback)
   \<and> (g cvText jobDescription = Resolves (Some response) \<and> response \<noteq> []
        \<and> \<not> str_includes (toLowerCase (trim response)) ''safe''
        \<and> (p (case match_braces (trim response) of
                 Some jsonMatch \<Rightarrow> jsonMatch | None \<Rightarrow> trim response) = None
             \<or> (\<exists>v. p (case match_braces (trim response) of
                         Some jsonMatch \<Rightarrow> jsonMatch | None \<Rightarrow> trim response) = Some v
                  \<and> (\<not> truthy (get_prop v ''score'') \<or> \<not> truthy (get_prop v ''strengths'')
                       \<or> \<not> truthy (get_prop v ''weaknesses'')
                       \<or> ToString (get_prop v ''score'') = None)))
       \<longrightarrow> evaluateCV g p cvText jobDescription = Inr groq_parse_fallback)
   \<and> (g' cvText jobDescription = GenRejects err
        \<or> (\<exists>t. g' cvText jobDescription = GenText t
             \<and> (p t = None
                  \<or> (\<exists>v. p t = Some v
                       \<and> (\<not> has_prop ''score'' v \<or> \<not> has_prop ''strengths'' v
                            \<or> \<not> has_prop ''weaknesses'' v
                            \<or> ToString (get_prop v ''score'') = None))))
       \<longrightarrow> evaluateCVWithText g' p cvText jobDescription = Inr gemini_fallback)
   \<and> score groq_error_fallback = Number 0
   \<and> score groq_parse_fallback = Number 50
   \<and> score gemini_fallback = Number 0"
proof -
  let ?clean = "case match_braces (trim response) of
                  Some jsonMatch \<Rightarrow> jsonMatch | None \<Rightarrow> trim response"
  have scores: "score groq_error_fallback = Number 0" "score groq_parse_fallback = Number 50"
    "score gemini_fallback = Number 0"
    by (simp_all add: groq_error_fallback_def groq_parse_fallback_def gemini_fallback_def)
  have groq_parse:
    "evaluateCV g p cvText jobDescription = Inr groq_parse_fallback"
    if reach: "g cvText jobDescription = Resolves (Some response)" "response \<noteq> []"
         "\<not> str_includes (toLowerCase (trim response)) ''safe''"
      and bad: "p ?clean = None
           \<or> (\<exists>v. p ?clean = Some v
                \<and> (\<not> truthy (get_prop v ''score'') \<or> \<not> truthy (get_prop v ''strengths'')
                     \<or> \<not> truthy (get_prop v ''weaknesses'')
                     \<or> ToString (get_prop v ''score'') = None))"
  proof -
    from bad obtain perr where "evaluateCV_parse p ?clean = Inl perr"
      using evaluateCV_parse_refuses [of p ?clean] by blast
    with reach show ?thesis by (rule evaluateCV_parse_failure)
  qed
  have gemini:
    "evaluateCVWithText g' p cvText jobDescription = Inr gemini_fallback"
    if bad: "g' cvText jobDescription = GenRejects err
        \<or> (\<exists>t. g' cvText jobDescription = GenText t
             \<and> (p t = None
                  \<or> (\<exists>v. p t = Some v
                       \<and> (\<not> has_prop ''score'' v \<or> \<not> has_prop ''strengths'' v
                            \<or> \<not> has_prop ''weaknesses'' v
                            \<or> ToString (get_prop v ''score'') = None))))"
  proof -
    from bad consider
        (rejects) "g' cvText jobDescription = GenRejects err"
      | (unparsed) t where "g' cvText jobDescription = GenText t" "p t = None"
      | (refused) t v where "g' cvText jobDescription = GenText t" "p t = Some v"
          "\<not> has_prop ''score'' v \<or> \<not> has_prop ''strengths'' v \<or> \<not> has_prop ''weaknesses'' v
           \<or> ToString (get_prop v ''score'') = None"
      by blast
    then show ?thesis
    proof cases
      case rejects
      then show ?thesis by (simp add: evaluateCVWithText_def evaluateCVWithText_try_def)
    next
      case unparsed
      then show ?thesis by (simp add: evaluateCVWithText_def evaluateCVWithText_try_def)
    next
      case refused
      from refused(3) obtain nerr where "normalizeEvaluation v = Inl nerr"
        using normalizeEvaluation_refuses [of v] by blast
      with refused(1,2) show ?thesis
        by (simp add: evaluateCVWithText_def evaluateCVWithText_try_def)
    qed
  qed
  show ?thesis
    using scores groq_parse gemini
      evaluateCV_returns [of g p cvText jobDescription]
      evaluateCVWithText_returns [of g' p cvText jobDescription]
      evaluateCV_call_failure [of g cvText jobDescription err p]
    by blast
qed

theorem scoring_clients_return_and_fall_back_witness:
  "evaluateCV (\<lambda>cvText jobDescription. Rejects (Error ''timeout''))
      JSON_parse_examples ''cv'' ''job'' = Inr groq_error_fallback
   \<and> evaluateCV (\<lambda>cvText jobDescription. Resolves (Some response_score_zero))
        JSON_parse_examples ''cv'' ''job'' = Inr groq_parse_fallback
   \<and> evaluateCVWithText (\<lambda>cvText jobDescription. GenText response_not_json)
        JSON_parse_examples ''cv'' ''job'' = Inr gemini_fallback
   \<and> score groq_error_fallback = Number 0 \<and> score groq_parse_fallback = Number 50
   \<and> score gemini_fallback = Number 0"
proof -
  let ?v = "JObj [(''score'', JNum ''0''),
                  (''strengths'', JArr [JStr ''React'', JStr ''Node.js'']),
                  (''weaknesses'', JArr [JStr ''Testing'', JStr ''Docker''])]"
  have parsed: "JSON_parse_examples
                  (case match_braces (trim response_score_zero) of
                     Some jsonMatch \<Rightarrow> jsonMatch | None \<Rightarrow> trim response_score_zero) = Some ?v"
    unfolding response_score_zero_clean(3) by code_simp
  have falsy: "\<not> truthy (get_prop ?v ''score'')" by simp
  from parsed falsy have bad:
    "\<exists>v. JSON_parse_examples
           (case match_braces (trim response_score_zero) of
              Some jsonMatch \<Rightarrow> jsonMatch | None \<Rightarrow> trim response_score_zero) = Some v
         \<and> (\<not> truthy (get_prop v ''score'') \<or> \<not> truthy (get_prop v ''strengths'')
              \<or> \<not> truthy (get_prop v ''weaknesses'')
              \<or> ToString (get_prop v ''score'') = None)"
    by blast
  show ?thesis
    using scoring_clients_return_and_fall_back
            [where g = "\<lambda>cvText jobDescription. Rejects (Error ''timeout'')"
               and g' = "\<lambda>cvText jobDescription. GenText response_not_json"
               and p = JSON_parse_examples and cvText = "''cv''" and jobDescription = "''job''"
               and err = "Error ''timeout''"]
          scoring_clients_return_and_fall_back
            [where g = "\<lambda>cvText jobDescription. Resolves (Some response_score_zero)"
               and g' = "\<lambda>cvText jobDescription. GenText response_not_json"
               and p = JSON_parse_examples and cvText = "''cv''" and jobDescription = "''job''"
               and response = response_score_zero]
          response_not_json_clean(4) response_score_zero_clean(1,2) bad
    by simp
qed

section \<open>Properties of the routes\<close>

lemmas handler_defs =
  POST_applications_def upload_single_def error_middleware_def create_handler_def
  create_catch_def create_callback_def create_try_def transaction_def rollback_def
  restore_rows_def logQuery_def query_def client_query_def uploadToSupabaseStorage_def
  storage_remove_key_def extractTextFromPDF_def insert_application_def setImmediate_def
  select_active_role_def select_existing_application_def uniqueFileName_def sanitize_def
  getPublicUrl_def respond_def emit_def console_dot_error_def Let_def
  PUT_application_def update_catch_def select_application_join_def not_permitted_def
  apply_update_def no_updates_def DELETE_application_def delete_callback_def delete_catch_def
  last_segment_def POST_reevaluate_def reevaluate_try_def update_evaluation_def
  insert_evaluation_def run_next_immediate_def run_immediate_def MODEL_TEXT_def
  scored_by_groq_def scored_by_gemini_def console_dot_errors_def

lemmas example_defs =
  env0_def env_B_def request_A_def request_B_def world0_def role_R1_def recruiter_def key_A_def
  application_A_def evaluation_A_def world_A_def world_A_no_text_def email_of_A_def

lemma timeout_fallbacks:
  "evaluateCV (\<lambda>cvText jobDescription. Rejects (Error ''timeout'')) p cv jd = Inr groq_error_fallback"
  "evaluateCVWithText (\<lambda>cvText jobDescription. GenRejects (Error ''timeout'')) p cv jd
     = Inr gemini_fallback"
  "evaluateCV_console (\<lambda>cvText jobDescription. Rejects (Error ''timeout'')) p cv jd
     = [''Error en evaluacion con Groq:'']"
  "evaluateCVWithText_console (\<lambda>cvText jobDescription. GenRejects (Error ''timeout'')) p cv jd
     = [''Error en evaluacion con Gemini (Text):'']"
  by (simp_all add: evaluateCV_def evaluateCV_try_def evaluateCVWithText_def
        evaluateCVWithText_try_def evaluateCV_console_def evaluateCVWithText_console_def)

lemma post_A:
  "POST_applications env0 request_A world0 =
     (\<lparr>status = 201,
       message = ''Aplicacion creada exitosamente. La evaluacion se procesara en breve.'',
       res_application = Some (application_A\<lparr>cv_text := None\<rparr>), res_evaluation = None\<rparr>,
      world0\<lparr>applications := [application_A], bucket := [key_A],
             immediates := [Immediate ''a1a1a1a1-4444-4d9e-8f60-000000000004''
                              ''Ana Diaz. 3 anos con React y Node.js''
                              ''Desarrollador full stack con React y Node.js''],
             calls := [Sql SelectActiveRole, Sql SelectExistingApplication, PoolConnect, Sql BEGIN,
                       StorageUpload key_A, PdfParse, Sql InsertApplication,
                       SetImmediate ''a1a1a1a1-4444-4d9e-8f60-000000000004'', Sql COMMIT,
                       Respond 201]\<rparr>)"
  by (simp add: handler_defs example_defs)

lemma post_B_after_A:
  "(let (rB, wB) = POST_applications env_B request_B (snd (POST_applications env0 request_A world0))
    in status rB = 201
       \<and> job_roles wB = [role_R1]
       \<and> map app_id (applications wB)
           = [''a1a1a1a1-4444-4d9e-8f60-000000000004'', ''b2b2b2b2-6666-4f1a-9b82-000000000006'']
       \<and> map job_role_id (applications wB)
           = [''7d9a3f10-2222-4b7c-8d4e-000000000002'', ''7d9a3f10-2222-4b7c-8d4e-000000000002'']
       \<and> map candidate_email (applications wB) = [''a@x.com'', ''b@x.com''])"
  unfolding post_A by (simp add: handler_defs example_defs)

text \<open>
  Claim C9: the update route does not preserve "at most one application per job role and
  candidate email". It accepts a new \<^verbatim>\<open>candidateEmail\<close> with no duplicate check: after
  application A is created for a role, application B is created for the same role with
  another email, and B's email is updated to A's, all one after the other, two rows hold
  the same pair.
\<close>

theorem update_breaks_one_application_per_email:
  "(let (rA, wA) = POST_applications env0 request_A world0;
        (rB, wB) = POST_applications env_B request_B wA;
        (rU, wU) = PUT_application env0 ''b2b2b2b2-6666-4f1a-9b82-000000000006'' email_of_A wB
    in status rA = 201 \<and> status rB = 201 \<and> status rU = 200
       \<and> map app_id (applications wU)
           = [''a1a1a1a1-4444-4d9e-8f60-000000000004'', ''b2b2b2b2-6666-4f1a-9b82-000000000006'']
       \<and> map (\<lambda>a. (job_role_id a, candidate_email a)) (applications wB)
           = [(''7d9a3f10-2222-4b7c-8d4e-000000000002'', ''a@x.com''),
              (''7d9a3f10-2222-4b7c-8d4e-000000000002'', ''b@x.com'')]
       \<and> map (\<lambda>a. (job_role_id a, candidate_email a)) (applications wU)
           = [(''7d9a3f10-2222-4b7c-8d4e-000000000002'', ''a@x.com''),
              (''7d9a3f10-2222-4b7c-8d4e-000000000002'', ''a@x.com'')])"
  unfolding post_A by (simp add: handler_defs example_defs)

lemma select_application_join_emit [simp]:
  "select_application_join (emit c w) aid = select_application_join w aid"
  by (simp add: select_application_join_def emit_def)

text \<open>
  Claim C8: for every application whose stored text is empty or missing, reevaluate is
  refused (status 400, the route's InvalidState) and calls neither the scoring client nor
  an \<^verbatim>\<open>INSERT\<close> or \<^verbatim>\<open>UPDATE\<close> of an evaluation. The calls and the rows are so for
  every caller; the status is 400 for a caller who passes the checks that come first
  (token, body, permission) when the lookup itself does not reject.
\<close>

theorem reevaluate_without_text_is_refused:
  assumes "select_application_join w applicationId = (application, jr) # others"
    and "cv_text application = None \<or> cv_text application = Some []"
  shows "evaluations (snd (POST_reevaluate e applicationId w)) = evaluations w
         \<and> (\<exists>cs. calls (snd (POST_reevaluate e applicationId w)) = calls w @ cs
                  \<and> GeminiGenerate \<notin> set cs \<and> Sql InsertEvaluation \<notin> set cs
                  \<and> Sql UpdateEvaluation \<notin> set cs)
         \<and> (authenticated e = Some u \<and> validationError e = None
              \<and> \<not> sql_rejects e SelectApplicationJoin \<and> \<not> not_permitted u jr
             \<longrightarrow> status (fst (POST_reevaluate e applicationId w)) = 400
                 \<and> message (fst (POST_reevaluate e applicationId w))
                     = ''No hay texto del CV disponible para evaluar'')"
proof (cases "authenticated e")
  case None
  then show ?thesis
    by (simp add: POST_reevaluate_def respond_def emit_def)
next
  case (Some u')
  show ?thesis
  proof (cases "validationError e")
    case (Some m)
    with \<open>authenticated e = Some u'\<close> show ?thesis
      by (simp add: POST_reevaluate_def respond_def emit_def)
  next
    case None
    show ?thesis
    proof (cases "sql_rejects e SelectApplicationJoin")
      case True
      with None \<open>authenticated e = Some u'\<close> show ?thesis
        by (simp add: POST_reevaluate_def query_def respond_def emit_def console_dot_error_def)
    next
      case False
      have join: "select_application_join (emit (Sql SelectApplicationJoin) w) applicationId
                    = (application, jr) # others"
        using assms(1) by simp
      from assms(2) show ?thesis
      proof
        assume "cv_text application = None"
        with False None \<open>authenticated e = Some u'\<close> join show ?thesis
          by (simp add: POST_reevaluate_def query_def respond_def)
             (simp add: emit_def)
      next
        assume "cv_text application = Some []"
        with False None \<open>authenticated e = Some u'\<close> join show ?thesis
          by (simp add: POST_reevaluate_def query_def respond_def)
             (simp add: emit_def)
      qed
    qed
  qed
qed

theorem reevaluate_without_text_is_refused_witness:
  "(let (r, w) = POST_reevaluate env0 ''a1a1a1a1-4444-4d9e-8f60-000000000004'' world_A_no_text
    in status r = 400 \<and> message r = ''No hay texto del CV disponible para evaluar''
       \<and> evaluations w = evaluations world_A_no_text)"
proof -
  have join: "select_application_join world_A_no_text ''a1a1a1a1-4444-4d9e-8f60-000000000004''
                = (application_A\<lparr>cv_text := Some []\<rparr>, role_R1) # []"
    by (simp add: select_application_join_def example_defs)
  have empty: "cv_text (application_A\<lparr>cv_text := Some []\<rparr>) = None
               \<or> cv_text (application_A\<lparr>cv_text := Some []\<rparr>) = Some []"
    by simp
  have ok: "authenticated env0 = Some recruiter \<and> validationError env0 = None
            \<and> \<not> sql_rejects env0 SelectApplicationJoin \<and> \<not> not_permitted recruiter role_R1"
    by (simp add: example_defs not_permitted_def)
  show ?thesis
    using reevaluate_without_text_is_refused [OF join empty, where e = env0 and u = recruiter] ok
    by (simp add: split_beta)
qed

text \<open>
  Claim C6: a submission that fails validation is answered with its error (a file that is
  not a PDF with InvalidInput, status 400) before anything is written. Evaluated at a
  submission with a \<^verbatim>\<open>text/plain\<close> file: nothing is written, but the error of the file
  filter goes to the error-handling middleware, which answers 500; the branch of the
  handler's \<^verbatim>\<open>catch\<close> that would answer 400 is never reached.
\<close>

theorem submit_non_pdf_answers_500:
  "(let (r, w) = POST_applications env0
                   (request_A\<lparr>req_file := Some \<lparr>mimetype = ''text/plain'', buffer = ''hola''\<rparr>\<rparr>)
                   world0
    in status r = 500 \<and> message r = ''Solo se permiten archivos PDF''
       \<and> applications w = [] \<and> bucket w = [] \<and> calls w = [Respond 500])"
  by (simp add: handler_defs example_defs)

text \<open>
  Claim C4: when the upload has succeeded and a later step fails, the transaction is
  rolled back, the uploaded key is removed as compensation, and a failure of that removal
  is logged. Evaluated at two submissions. In the first the upload, the extraction and
  the \<^verbatim>\<open>INSERT\<close> succeed and \<^verbatim>\<open>COMMIT\<close> rejects: the row is rolled back, but no removal
  is ever called and the key stays in the bucket. In the second the extraction throws and
  the removal resolves with an error: the key stays and nothing about the removal is
  logged.
\<close>

theorem submit_commit_failure_leaves_file_and_task:
  "(let (r, w) = POST_applications (env0\<lparr>sql_rejects := (\<lambda>stmt. stmt = COMMIT)\<rparr>) request_A world0
    in status r = 500 \<and> applications w = [] \<and> bucket w = [key_A]
       \<and> calls w = [Sql SelectActiveRole, Sql SelectExistingApplication, PoolConnect, Sql BEGIN,
                     StorageUpload key_A, PdfParse, Sql InsertApplication,
                     SetImmediate ''a1a1a1a1-4444-4d9e-8f60-000000000004'', Sql COMMIT,
                     Sql ROLLBACK, Respond 500])
   \<and> (let (r, w) = POST_applications
                      (env0\<lparr>pdfParse := None,
                            storage_remove := ReturnsError ''new row violates row-level security policy''\<rparr>)
                      request_A world0
      in status r = 500 \<and> applications w = [] \<and> bucket w = [key_A]
         \<and> console_error w = [''Error extrayendo texto del PDF'', ''Error creando aplicacion:'']
         \<and> calls w = [Sql SelectActiveRole, Sql SelectExistingApplication, PoolConnect, Sql BEGIN,
                       StorageUpload key_A, PdfParse, StorageRemove key_A, Sql ROLLBACK,
                       Respond 500])"
  by (simp add: handler_defs example_defs)

text \<open>
  Claim C5: the delete route removes the stored file only after the transaction that
  deletes the rows has committed. Evaluated at a delete whose \<^verbatim>\<open>COMMIT\<close> rejects: the
  file is removed inside the callback, before \<^verbatim>\<open>COMMIT\<close> is sent, so after the rollback
  the application and its evaluation are still there and the file is gone.
\<close>

theorem delete_removes_file_before_commit:
  "(let (r, w) = DELETE_application (env0\<lparr>sql_rejects := (\<lambda>stmt. stmt = COMMIT)\<rparr>)
                   ''a1a1a1a1-4444-4d9e-8f60-000000000004'' world_A
    in status r = 500 \<and> applications w = [application_A] \<and> evaluations w = [evaluation_A]
       \<and> bucket world_A = [key_A] \<and> bucket w = []
       \<and> calls w = [Sql SelectApplicationJoin, PoolConnect, Sql BEGIN, Sql DeleteEvaluations,
                     Sql DeleteApplication, StorageRemove key_A, Sql COMMIT, Sql ROLLBACK,
                     Respond 500])"
  by (simp add: handler_defs example_defs)

text \<open>
  Claim C3, as stated: the background task is dispatched only after the transaction has
  committed and the response is determined. It is not: when \<^verbatim>\<open>COMMIT\<close> rejects, the
  task is queued all the same, for an application that is rolled back and a response
  that is 500; and in the submission that succeeds \<^verbatim>\<open>setImmediate\<close> is called before
  \<^verbatim>\<open>COMMIT\<close> is sent.
\<close>

theorem submit_dispatches_before_commit:
  "(let (r, w) = POST_applications (env0\<lparr>sql_rejects := (\<lambda>stmt. stmt = COMMIT)\<rparr>) request_A world0
    in status r = 500 \<and> applications w = []
       \<and> immediates w = [Immediate ''a1a1a1a1-4444-4d9e-8f60-000000000004''
                            ''Ana Diaz. 3 anos con React y Node.js''
                            ''Desarrollador full stack con React y Node.js''])
   \<and> (let (r, w) = POST_applications env0 request_A world0
      in status r = 201
         \<and> calls w = [Sql SelectActiveRole, Sql SelectExistingApplication, PoolConnect, Sql BEGIN,
                       StorageUpload key_A, PdfParse, Sql InsertApplication,
                       SetImmediate ''a1a1a1a1-4444-4d9e-8f60-000000000004'', Sql COMMIT,
                       Respond 201])"
  by (simp add: handler_defs example_defs)

lemma status_respond [simp]: "status (fst (respond st msg w)) = st"
  by (simp add: respond_def)

lemma calls_emit [simp]: "calls (emit c w) = calls w @ [c]"
  by (simp add: emit_def scored_by_groq_def scored_by_gemini_def console_dot_errors_def)

lemma submit_ignores_scoring:
  "POST_applications
     (e\<lparr>sql_rejects := (sql_rejects e)(InsertEvaluation := b), groq_create := g,
        generateContent := g', JSON_parse := p\<rparr>) req w
   = POST_applications e req w"
  by (simp add: POST_applications_def upload_single_def error_middleware_def create_handler_def
        create_catch_def create_callback_def create_try_def transaction_def rollback_def
        restore_rows_def logQuery_def query_def client_query_def uploadToSupabaseStorage_def
        storage_remove_key_def extractTextFromPDF_def insert_application_def
        uniqueFileName_def getPublicUrl_def
      cong: option.case_cong sum.case_cong prod.case_cong list.case_cong if_cong
        storage_outcome.case_cong)

lemma insert_evaluation_needs_application:
  assumes "evaluations (snd (insert_evaluation e aid ev model w)) \<noteq> evaluations w"
  shows "aid \<in> set (map app_id (applications w))"
  using assms
  by (auto simp: insert_evaluation_def query_def emit_def console_dot_error_def Let_def
      split: if_splits number.splits)

lemma run_immediate_needs_application:
  assumes "evaluations (run_immediate e (Immediate aid cvText description) w) \<noteq> evaluations w"
  shows "aid \<in> set (map app_id (applications w))"
proof -
  obtain ev where ev: "evaluateCV (groq_create e) (JSON_parse e) cvText description = Inr ev"
    using evaluateCV_returns by blast
  obtain res w1 where ins:
    "insert_evaluation e aid ev ''llama-3.1-8b-instant'' (scored_by_groq e cvText description w) = (res, w1)"
    by (metis prod.exhaust)
  have "evaluations (run_immediate e (Immediate aid cvText description) w) = evaluations w1"
    using ev ins by (cases res) (simp_all add: run_immediate_def console_dot_error_def)
  with assms ins
  have "evaluations (snd (insert_evaluation e aid ev ''llama-3.1-8b-instant'' (scored_by_groq e cvText description w)))
          \<noteq> evaluations (scored_by_groq e cvText description w)"
    by (simp add: emit_def scored_by_groq_def scored_by_gemini_def console_dot_errors_def)
  from insert_evaluation_needs_application [OF this] show ?thesis
    by (simp add: emit_def scored_by_groq_def scored_by_gemini_def console_dot_errors_def)
qed

lemma dispatched_append [simp]: "dispatched (xs @ ys) = dispatched xs @ dispatched ys"
  by (induction xs rule: dispatched.induct) simp_all

lemma quiet_refl [simp]: "quiet w w"
  by (simp add: quiet_def)

lemma quiet_trans: "quiet w w1 \<Longrightarrow> quiet w1 w2 \<Longrightarrow> quiet w w2"
  by (auto simp: quiet_def)

lemma quiet_emit:
  "dispatched [c] = [] \<Longrightarrow> quiet w w1 \<Longrightarrow> quiet w (emit c w1)"
  by (auto simp: quiet_def emit_def)

lemma quiet_console_dot_error: "quiet w w1 \<Longrightarrow> quiet w (console_dot_error line w1)"
  by (auto simp: quiet_def console_dot_error_def)

lemma quiet_respond: "quiet w w1 \<Longrightarrow> quiet w (snd (respond st msg w1))"
  by (simp add: respond_def quiet_emit)

lemma status_create_catch_cases:
  "status (fst (create_catch err w)) = 400 \<or> status (fst (create_catch err w)) = 500"
  by (simp add: create_catch_def respond_def)

lemma quiet_create_catch: "quiet w w1 \<Longrightarrow> quiet w (snd (create_catch err w1))"
  by (simp add: create_catch_def quiet_respond quiet_console_dot_error)

lemma quiet_query:
  "quiet w w1 \<Longrightarrow> quiet w (snd (query e stmt w1))"
  by (simp add: query_def quiet_emit quiet_console_dot_error)

lemma quiet_logQuery:
  "quiet w w1 \<Longrightarrow> quiet w (snd (logQuery e stmt w1))"
  by (simp add: logQuery_def quiet_emit quiet_console_dot_error)

lemma quiet_rollback:
  assumes "immediates w1 = immediates w" "applications w0 = applications w"
    and "\<exists>cs. calls w1 = calls w @ cs \<and> dispatched cs = []"
  shows "quiet w (snd (rollback e w0 err w1))"
  using assms
  by (auto simp: rollback_def restore_rows_def logQuery_def quiet_def emit_def
        console_dot_error_def)

lemma fst_rollback: "\<exists>err'. fst (rollback e w0 err w1) = Inl err'"
  by (simp add: rollback_def logQuery_def)

text \<open>The callback either returns the new row, having queued the task right after the
  \<^verbatim>\<open>INSERT\<close>, or throws, having queued nothing.\<close>

lemma create_callback_throws:
  assumes "create_callback e req jobRole w = (Inl err, w1)"
  shows "quiet w w1"
  using assms
  by (auto simp: create_callback_def create_try_def uploadToSupabaseStorage_def
        extractTextFromPDF_def insert_application_def client_query_def storage_remove_key_def
        setImmediate_def emit_def console_dot_error_def quiet_def Let_def
      split: storage_outcome.splits option.splits if_splits)

lemma create_callback_returns:
  assumes "create_callback e req jobRole w = (Inr row, w1)"
  shows "\<exists>cvText. pdfParse e = Some cvText
           \<and> row = \<lparr>app_id = uuid_generate_v4 e, job_role_id = jobRoleId req,
                     candidate_name = candidateName req, candidate_email = candidateEmail req,
                     candidate_phone = candidatePhone req,
                     cv_file_path = getPublicUrl e (uniqueFileName e req),
                     cv_text = Some cvText, app_status = ''pending''\<rparr>
           \<and> immediates w1
               = immediates w @ [Immediate (uuid_generate_v4 e) cvText (jr_description jobRole)]
           \<and> applications w1 = applications w @ [row]
           \<and> calls w1 = calls w @ [StorageUpload (uniqueFileName e req), PdfParse,
                                     Sql InsertApplication, SetImmediate (uuid_generate_v4 e)]"
  using assms
  by (auto simp: create_callback_def create_try_def uploadToSupabaseStorage_def
        extractTextFromPDF_def insert_application_def client_query_def storage_remove_key_def
        setImmediate_def emit_def console_dot_error_def Let_def
      split: storage_outcome.splits option.splits if_splits)

lemma not_the_pdf_message [simp]:
  "\<not> str_includes ''statement rejected'' ''Solo se permiten archivos PDF''"
  "\<not> str_includes ''connection rejected'' ''Solo se permiten archivos PDF''"
  by simp_all

lemma submit_transaction_cases:
  fixes e req jobRole w
  defines "T \<equiv> transaction e (create_callback e req jobRole) w"
  shows "((\<exists>err. fst T = Inl err) \<and> quiet w (snd T))
       \<or> (\<exists>cvText row.
             pdfParse e = Some cvText
             \<and> row = \<lparr>app_id = uuid_generate_v4 e, job_role_id = jobRoleId req,
                       candidate_name = candidateName req, candidate_email = candidateEmail req,
                       candidate_phone = candidatePhone req,
                       cv_file_path = getPublicUrl e (uniqueFileName e req),
                       cv_text = Some cvText, app_status = ''pending''\<rparr>
             \<and> immediates (snd T)
                 = immediates w @ [Immediate (uuid_generate_v4 e) cvText (jr_description jobRole)]
             \<and> ((sql_rejects e COMMIT \<and> fst T = Inl (Error ''statement rejected'')
                   \<and> applications (snd T) = applications w
                   \<and> calls (snd T)
                       = calls w @ [PoolConnect, Sql BEGIN, StorageUpload (uniqueFileName e req),
                                    PdfParse, Sql InsertApplication,
                                    SetImmediate (uuid_generate_v4 e), Sql COMMIT, Sql ROLLBACK])
                  \<or> (\<not> sql_rejects e COMMIT \<and> fst T = Inr row
                      \<and> applications (snd T) = applications w @ [row]
                      \<and> calls (snd T)
                          = calls w @ [PoolConnect, Sql BEGIN, StorageUpload (uniqueFileName e req),
                                       PdfParse, Sql InsertApplication,
                                       SetImmediate (uuid_generate_v4 e), Sql COMMIT])))"
proof (cases "connect_rejects e")
  case True
  then have "fst T = Inl (Error ''connection rejected'')" "snd T = emit PoolConnect w"
    by (simp_all add: T_def transaction_def)
  then show ?thesis by (simp add: quiet_emit)
next
  case connected: False
  let ?w0 = "emit PoolConnect w"
  show ?thesis
  proof (cases "sql_rejects e BEGIN")
    case True
    with connected have T: "T = rollback e w (Error ''statement rejected'')
                 (console_dot_error ''Error en consulta de transaccion'' (emit (Sql BEGIN) ?w0))"
      by (simp add: T_def transaction_def logQuery_def)
    have "quiet w (snd T)"
      unfolding T by (rule quiet_rollback) (simp_all add: emit_def console_dot_error_def)
    moreover have "\<exists>err. fst T = Inl err"
      unfolding T by (rule fst_rollback)
    ultimately show ?thesis by blast
  next
    case begun: False
    let ?w1 = "emit (Sql BEGIN) ?w0"
    obtain res w2 where cb: "create_callback e req jobRole ?w1 = (res, w2)"
      by (metis prod.exhaust)
    show ?thesis
    proof (cases res)
      case (Inl err)
      with connected begun cb have T: "T = rollback e w err w2"
        by (simp add: T_def transaction_def logQuery_def)
      from cb Inl have q: "quiet ?w1 w2" using create_callback_throws by blast
      have "quiet w ?w1" by (simp add: quiet_emit)
      from this q have "quiet w w2" by (rule quiet_trans)
      then have "quiet w (snd T)"
        unfolding T by (intro quiet_rollback) (auto simp: quiet_def)
      moreover have "\<exists>err. fst T = Inl err"
        unfolding T by (rule fst_rollback)
      ultimately show ?thesis by blast
    next
      case (Inr row)
      with cb have "create_callback e req jobRole ?w1 = (Inr row, w2)" by simp
      from create_callback_returns [OF this] obtain cvText where
        extracted: "pdfParse e = Some cvText"
        and row: "row = \<lparr>app_id = uuid_generate_v4 e, job_role_id = jobRoleId req,
                       candidate_name = candidateName req, candidate_email = candidateEmail req,
                       candidate_phone = candidatePhone req,
                       cv_file_path = getPublicUrl e (uniqueFileName e req),
                       cv_text = Some cvText, app_status = ''pending''\<rparr>"
        and imm: "immediates w2
               = immediates ?w1 @ [Immediate (uuid_generate_v4 e) cvText (jr_description jobRole)]"
        and apps: "applications w2 = applications ?w1 @ [row]"
        and calls: "calls w2 = calls ?w1 @ [StorageUpload (uniqueFileName e req), PdfParse,
                                     Sql InsertApplication, SetImmediate (uuid_generate_v4 e)]"
        by blast
      show ?thesis
      proof (cases "sql_rejects e COMMIT")
        case True
        with connected begun cb Inr
        have T: "T = rollback e w (Error ''statement rejected'')
                 (console_dot_error ''Error en consulta de transaccion'' (emit (Sql COMMIT) w2))"
          by (simp add: T_def transaction_def logQuery_def)
        have "fst T = Inl (Error ''statement rejected'')"
          unfolding T by (simp add: rollback_def logQuery_def)
        moreover have "applications (snd T) = applications w"
          unfolding T by (simp add: rollback_def logQuery_def restore_rows_def)
        moreover have "immediates (snd T)
                 = immediates w @ [Immediate (uuid_generate_v4 e) cvText (jr_description jobRole)]"
          unfolding T using imm
          by (simp add: rollback_def logQuery_def restore_rows_def emit_def console_dot_error_def)
        moreover have "calls (snd T)
                       = calls w @ [PoolConnect, Sql BEGIN, StorageUpload (uniqueFileName e req),
                                    PdfParse, Sql InsertApplication,
                                    SetImmediate (uuid_generate_v4 e), Sql COMMIT, Sql ROLLBACK]"
          unfolding T using calls
          by (simp add: rollback_def logQuery_def restore_rows_def emit_def console_dot_error_def)
        ultimately show ?thesis using True extracted row by blast
      next
        case False
        with connected begun cb Inr
        have T: "T = (Inr row, emit (Sql COMMIT) w2)"
          by (simp add: T_def transaction_def logQuery_def)
        have "applications (snd T) = applications w @ [row]"
          unfolding T using apps by (simp add: emit_def)
        moreover have "immediates (snd T)
                 = immediates w @ [Immediate (uuid_generate_v4 e) cvText (jr_description jobRole)]"
          unfolding T using imm by (simp add: emit_def)
        moreover have "calls (snd T)
                          = calls w @ [PoolConnect, Sql BEGIN, StorageUpload (uniqueFileName e req),
                                       PdfParse, Sql InsertApplication,
                                       SetImmediate (uuid_generate_v4 e), Sql COMMIT]"
          unfolding T using calls by (simp add: emit_def)
        moreover have "fst T = Inr row" unfolding T by simp
        ultimately show ?thesis using False extracted row by blast
      qed
    qed
  qed
qed

lemma quiet_status_and_world:
  assumes "quiet w w1"
  shows "quiet w (snd (respond st msg w1))" and "quiet w (snd (create_catch err w1))"
    and "status (fst (respond st msg w1)) = st"
    and "status (fst (create_catch err w1)) \<noteq> 201"
proof -
  show "quiet w (snd (respond st msg w1))" using assms by (rule quiet_respond)
  show "quiet w (snd (create_catch err w1))" using assms by (rule quiet_create_catch)
  show "status (fst (respond st msg w1)) = st" by (simp add: respond_def)
  show "status (fst (create_catch err w1)) \<noteq> 201"
    using status_create_catch_cases [of err w1] by auto
qed

lemma create_handler_cases:
  "(let r = fst (create_handler e req w); w' = snd (create_handler e req w)
    in (status r \<noteq> 201 \<and> quiet w w')
       \<or> (\<exists>jobRole others cvText row.
             select_active_role w (jobRoleId req) = jobRole # others
             \<and> pdfParse e = Some cvText
             \<and> row = \<lparr>app_id = uuid_generate_v4 e, job_role_id = jobRoleId req,
                       candidate_name = candidateName req, candidate_email = candidateEmail req,
                       candidate_phone = candidatePhone req,
                       cv_file_path = getPublicUrl e (uniqueFileName e req),
                       cv_text = Some cvText, app_status = ''pending''\<rparr>
             \<and> immediates w'
                 = immediates w @ [Immediate (uuid_generate_v4 e) cvText (jr_description jobRole)]
             \<and> ((sql_rejects e COMMIT \<and> status r = 500 \<and> applications w' = applications w
                   \<and> calls w'
                       = calls w @ [Sql SelectActiveRole, Sql SelectExistingApplication,
                                    PoolConnect, Sql BEGIN, StorageUpload (uniqueFileName e req),
                                    PdfParse, Sql InsertApplication,
                                    SetImmediate (uuid_generate_v4 e), Sql COMMIT, Sql ROLLBACK,
                                    Respond 500])
                  \<or> (\<not> sql_rejects e COMMIT \<and> status r = 201
                      \<and> applications w' = applications w @ [row]
                      \<and> calls w'
                          = calls w @ [Sql SelectActiveRole, Sql SelectExistingApplication,
                                       PoolConnect, Sql BEGIN,
                                       StorageUpload (uniqueFileName e req), PdfParse,
                                       Sql InsertApplication, SetImmediate (uuid_generate_v4 e),
                                       Sql COMMIT, Respond 201]))))"
proof -
  let ?H = "create_handler e req w"
  have quiet_case: ?thesis if "status (fst ?H) \<noteq> 201" "quiet w (snd ?H)"
    using that by (simp add: Let_def)
  show ?thesis
  proof (cases "req_file req = None")
    case True
    then have "?H = respond 400 ''Archivo CV requerido'' w"
      by (simp add: create_handler_def)
    then show ?thesis using quiet_status_and_world [of w w] by (intro quiet_case) simp_all
  next
    case False
    then obtain f where hasfile: "req_file req = Some f" by auto
    show ?thesis
    proof (cases "validationError e")
      case (Some m)
      with hasfile have "?H = respond 400 m w"
        by (simp add: create_handler_def)
      then show ?thesis using quiet_status_and_world [of w w] by (intro quiet_case) simp_all
    next
      case None
      let ?w1 = "snd (query e SelectActiveRole w)"
      have q1: "quiet w ?w1" by (simp add: quiet_query)
      show ?thesis
      proof (cases "sql_rejects e SelectActiveRole")
        case True
        with hasfile None have "?H = create_catch (Error ''statement rejected'') ?w1"
          by (simp add: create_handler_def query_def)
        then show ?thesis using quiet_status_and_world [OF q1] by (intro quiet_case) simp_all
      next
        case role_ok: False
        then have w1: "?w1 = emit (Sql SelectActiveRole) w" by (simp add: query_def)
        show ?thesis
        proof (cases "select_active_role w (jobRoleId req)")
          case Nil
          with hasfile None role_ok
          have "?H = respond 404 ''Rol no encontrado o no esta activo'' ?w1"
            by (simp add: create_handler_def query_def select_active_role_def emit_def)
          then show ?thesis using quiet_status_and_world [OF q1] by (intro quiet_case) simp_all
        next
          case (Cons jobRole others)
          then have role1: "select_active_role ?w1 (jobRoleId req) = jobRole # others"
            by (simp add: w1 select_active_role_def emit_def)
          let ?w2 = "snd (query e SelectExistingApplication ?w1)"
          have q2: "quiet w ?w2" using q1 by (rule quiet_query)
          show ?thesis
          proof (cases "sql_rejects e SelectExistingApplication")
            case True
            with hasfile None role_ok role1
            have "?H = create_catch (Error ''statement rejected'') ?w2"
              by (simp add: create_handler_def query_def)
            then show ?thesis using quiet_status_and_world [OF q2] by (intro quiet_case) simp_all
          next
            case dup_ok: False
            with role_ok
            have w2: "?w2 = emit (Sql SelectExistingApplication) (emit (Sql SelectActiveRole) w)"
              by (simp add: query_def)
            show ?thesis
            proof (cases "select_existing_application w (jobRoleId req) (candidateEmail req) = []")
              case False
              then have "select_existing_application ?w2 (jobRoleId req) (candidateEmail req) \<noteq> []"
                by (simp add: w2 select_existing_application_def emit_def)
              with hasfile None role_ok role1 dup_ok
              have "?H = respond 409
                           ''Ya existe una aplicacion de este candidato para este rol'' ?w2"
                by (simp add: create_handler_def query_def)
              then show ?thesis using quiet_status_and_world [OF q2]
                by (intro quiet_case) simp_all
            next
              case True
              then have nodup: "select_existing_application ?w2 (jobRoleId req) (candidateEmail req) = []"
                by (simp add: w2 select_existing_application_def emit_def)
              let ?T = "transaction e (create_callback e req jobRole) ?w2"
              have H: "?H = (case ?T of
                               (Inl err, w3) \<Rightarrow> create_catch err w3
                             | (Inr row, w3) \<Rightarrow>
                                 (\<lparr>status = 201,
                                   message = ''Aplicacion creada exitosamente. La evaluacion se procesara en breve.'',
                                   res_application = Some (row\<lparr>cv_text := None\<rparr>),
                                   res_evaluation = None\<rparr>,
                                  emit (Respond 201) w3))"
                using hasfile None role_ok role1 dup_ok nodup
                by (simp add: create_handler_def query_def)
              have base: "immediates ?w2 = immediates w" "applications ?w2 = applications w"
                "calls ?w2 = calls w @ [Sql SelectActiveRole, Sql SelectExistingApplication]"
                by (simp_all add: w2 emit_def)
              from submit_transaction_cases [of e req jobRole ?w2]
              consider
                  (thrown) err where "fst ?T = Inl err" "quiet ?w2 (snd ?T)"
                | (uncommitted) cvText where "pdfParse e = Some cvText"
                    "immediates (snd ?T)
                       = immediates ?w2 @ [Immediate (uuid_generate_v4 e) cvText (jr_description jobRole)]"
                    "sql_rejects e COMMIT" "fst ?T = Inl (Error ''statement rejected'')"
                    "applications (snd ?T) = applications ?w2"
                    "calls (snd ?T)
                       = calls ?w2 @ [PoolConnect, Sql BEGIN, StorageUpload (uniqueFileName e req),
                                      PdfParse, Sql InsertApplication,
                                      SetImmediate (uuid_generate_v4 e), Sql COMMIT, Sql ROLLBACK]"
                | (committed) cvText row where "pdfParse e = Some cvText"
                    "row = \<lparr>app_id = uuid_generate_v4 e, job_role_id = jobRoleId req,
                             candidate_name = candidateName req,
                             candidate_email = candidateEmail req,
                             candidate_phone = candidatePhone req,
                             cv_file_path = getPublicUrl e (uniqueFileName e req),
                             cv_text = Some cvText, app_status = ''pending''\<rparr>"
                    "immediates (snd ?T)
                       = immediates ?w2 @ [Immediate (uuid_generate_v4 e) cvText (jr_description jobRole)]"
                    "\<not> sql_rejects e COMMIT" "fst ?T = Inr row"
                    "applications (snd ?T) = applications ?w2 @ [row]"
                    "calls (snd ?T)
                       = calls ?w2 @ [PoolConnect, Sql BEGIN, StorageUpload (uniqueFileName e req),
                                      PdfParse, Sql InsertApplication,
                                      SetImmediate (uuid_generate_v4 e), Sql COMMIT]"
                by blast
              then show ?thesis
              proof cases
                case thrown
                from thrown(1) have "?H = create_catch err (snd ?T)"
                  unfolding H by (cases ?T) simp
                moreover from q2 thrown(2) have "quiet w (snd ?T)" by (rule quiet_trans)
                ultimately show ?thesis
                  using quiet_status_and_world [of w "snd ?T"] by (intro quiet_case) simp_all
              next
                case uncommitted
                from uncommitted(4)
                have HH: "?H = create_catch (Error ''statement rejected'') (snd ?T)"
                  unfolding H by (cases ?T) simp
                have "status (fst ?H) = 500"
                  unfolding HH by (simp add: create_catch_def respond_def)
                moreover have "applications (snd ?H) = applications w"
                  unfolding HH using uncommitted(5) base
                  by (simp add: create_catch_def respond_def emit_def console_dot_error_def)
                moreover have "immediates (snd ?H)
                    = immediates w @ [Immediate (uuid_generate_v4 e) cvText (jr_description jobRole)]"
                  unfolding HH using uncommitted(2) base
                  by (simp add: create_catch_def respond_def emit_def console_dot_error_def)
                moreover have "calls (snd ?H)
                       = calls w @ [Sql SelectActiveRole, Sql SelectExistingApplication,
                                    PoolConnect, Sql BEGIN, StorageUpload (uniqueFileName e req),
                                    PdfParse, Sql InsertApplication,
                                    SetImmediate (uuid_generate_v4 e), Sql COMMIT, Sql ROLLBACK,
                                    Respond 500]"
                  unfolding HH using uncommitted(6) base
                  by (simp add: create_catch_def respond_def emit_def console_dot_error_def)
                ultimately show ?thesis
                  using Cons uncommitted(1,3) by (simp add: Let_def)
              next
                case committed
                from committed(5)
                have HH: "?H = (\<lparr>status = 201,
                                   message = ''Aplicacion creada exitosamente. La evaluacion se procesara en breve.'',
                                   res_application = Some (row\<lparr>cv_text := None\<rparr>),
                                   res_evaluation = None\<rparr>,
                                  emit (Respond 201) (snd ?T))"
                  unfolding H by (cases ?T) simp
                have "status (fst ?H) = 201" unfolding HH by simp
                moreover have "applications (snd ?H) = applications w @ [row]"
                  unfolding HH using committed(6) base by (simp add: emit_def)
                moreover have "immediates (snd ?H)
                    = immediates w @ [Immediate (uuid_generate_v4 e) cvText (jr_description jobRole)]"
                  unfolding HH using committed(3) base by (simp add: emit_def)
                moreover have "calls (snd ?H)
                          = calls w @ [Sql SelectActiveRole, Sql SelectExistingApplication,
                                       PoolConnect, Sql BEGIN,
                                       StorageUpload (uniqueFileName e req), PdfParse,
                                       Sql InsertApplication, SetImmediate (uuid_generate_v4 e),
                                       Sql COMMIT, Respond 201]"
                  unfolding HH using committed(7) base by (simp add: emit_def)
                ultimately show ?thesis
                  using Cons committed(1,2,4) by (simp add: Let_def)
              qed
            qed
          qed
        qed
      qed
    qed
  qed
qed

lemma run_immediate_calls:
  "calls (run_immediate e task w) = calls w @ [GroqCreate, Sql InsertEvaluation]"
proof (cases task)
  case (Immediate aid cvText description)
  obtain ev where ev: "evaluateCV (groq_create e) (JSON_parse e) cvText description = Inr ev"
    using evaluateCV_returns by blast
  let ?w0 = "scored_by_groq e cvText description w"
  have w0: "calls ?w0 = calls w @ [GroqCreate]"
    by (simp add: scored_by_groq_def console_dot_errors_def emit_def)
  have "calls (snd (insert_evaluation e aid ev ''llama-3.1-8b-instant'' ?w0))
          = calls ?w0 @ [Sql InsertEvaluation]"
    by (auto simp: insert_evaluation_def query_def emit_def console_dot_error_def Let_def
        split: if_splits number.splits)
  moreover have "calls (run_immediate e task w)
                   = calls (snd (insert_evaluation e aid ev ''llama-3.1-8b-instant'' ?w0))"
    using Immediate ev
    by (cases "insert_evaluation e aid ev ''llama-3.1-8b-instant'' ?w0")
       (auto simp: run_immediate_def console_dot_error_def split: sum.splits)
  ultimately show ?thesis using w0 by simp
qed

lemma submit_cases:
  "(let r = fst (POST_applications e req w); w' = snd (POST_applications e req w)
    in (status r \<noteq> 201 \<and> immediates w' = immediates w \<and> applications w' = applications w
        \<and> (\<exists>cs. calls w' = calls w @ cs \<and> dispatched cs = []))
       \<or> (\<exists>jobRole others cvText row.
             select_active_role w (jobRoleId req) = jobRole # others
             \<and> pdfParse e = Some cvText
             \<and> row = \<lparr>app_id = uuid_generate_v4 e, job_role_id = jobRoleId req,
                       candidate_name = candidateName req, candidate_email = candidateEmail req,
                       candidate_phone = candidatePhone req,
                       cv_file_path = getPublicUrl e (uniqueFileName e req),
                       cv_text = Some cvText, app_status = ''pending''\<rparr>
             \<and> immediates w'
                 = immediates w @ [Immediate (uuid_generate_v4 e) cvText (jr_description jobRole)]
             \<and> ((sql_rejects e COMMIT \<and> status r = 500 \<and> applications w' = applications w
                   \<and> calls w'
                       = calls w @ [Sql SelectActiveRole, Sql SelectExistingApplication,
                                    PoolConnect, Sql BEGIN, StorageUpload (uniqueFileName e req),
                                    PdfParse, Sql InsertApplication,
                                    SetImmediate (uuid_generate_v4 e), Sql COMMIT, Sql ROLLBACK,
                                    Respond 500])
                  \<or> (\<not> sql_rejects e COMMIT \<and> status r = 201
                      \<and> applications w' = applications w @ [row]
                      \<and> calls w'
                          = calls w @ [Sql SelectActiveRole, Sql SelectExistingApplication,
                                       PoolConnect, Sql BEGIN,
                                       StorageUpload (uniqueFileName e req), PdfParse,
                                       Sql InsertApplication, SetImmediate (uuid_generate_v4 e),
                                       Sql COMMIT, Respond 201]))))"
proof (cases "upload_single e req")
  case (Inl err)
  then have "POST_applications e req w = error_middleware err w"
    by (simp add: POST_applications_def)
  then have "status (fst (POST_applications e req w)) \<noteq> 201"
    and "quiet w (snd (POST_applications e req w))"
    by (simp_all add: error_middleware_def quiet_def respond_def emit_def console_dot_error_def)
  then show ?thesis by (simp add: Let_def quiet_def)
next
  case (Inr req1)
  then have "req1 = req"
    by (auto simp: upload_single_def split: option.splits if_splits)
  with Inr have "POST_applications e req w = create_handler e req w"
    by (simp add: POST_applications_def)
  then show ?thesis using create_handler_cases [of e req w] by (simp add: quiet_def)
qed

text \<open>
  Claim C3, amended: the background task is queued by \<^verbatim>\<open>setImmediate\<close> inside the
  transaction callback, right after the \<^verbatim>\<open>INSERT\<close> of the application and before
  \<^verbatim>\<open>COMMIT\<close> is sent, whether or not the commit then succeeds. Every submission is of
  one of three kinds. It queues nothing, calls \<^verbatim>\<open>setImmediate\<close> nowhere, inserts no
  application and is not answered 201. Or the \<^verbatim>\<open>INSERT\<close> has succeeded: then exactly
  one task is queued, for the id of the inserted row, its extracted text and the
  description of the job role, and \<^verbatim>\<open>setImmediate\<close> stands between the \<^verbatim>\<open>INSERT\<close> and
  \<^verbatim>\<open>COMMIT\<close> in the calls; when \<^verbatim>\<open>COMMIT\<close> rejects the row is rolled back and the
  answer is 500, with the task still queued, and when it succeeds the row is there and
  the answer is 201. The response and the store that the submission leaves do not depend
  on the scoring provider, on \<^verbatim>\<open>JSON.parse\<close> or on whether the \<^verbatim>\<open>INSERT\<close> of the
  evaluation will reject; the task, when it runs, calls the provider and sends that
  \<^verbatim>\<open>INSERT\<close> and nothing else (no response), and it writes an evaluation row only when
  the application row is in the table at that time.
\<close>

theorem submit_dispatch_inside_transaction:
  "(let r = fst (POST_applications e req w); w' = snd (POST_applications e req w)
    in (status r \<noteq> 201 \<and> immediates w' = immediates w \<and> applications w' = applications w
        \<and> (\<exists>cs. calls w' = calls w @ cs \<and> dispatched cs = []))
       \<or> (\<exists>jobRole others cvText row.
             select_active_role w (jobRoleId req) = jobRole # others
             \<and> pdfParse e = Some cvText
             \<and> row = \<lparr>app_id = uuid_generate_v4 e, job_role_id = jobRoleId req,
                       candidate_name = candidateName req, candidate_email = candidateEmail req,
                       candidate_phone = candidatePhone req,
                       cv_file_path = getPublicUrl e (uniqueFileName e req),
                       cv_text = Some cvText, app_status = ''pending''\<rparr>
             \<and> immediates w'
                 = immediates w @ [Immediate (uuid_generate_v4 e) cvText (jr_description jobRole)]
             \<and> ((sql_rejects e COMMIT \<and> status r = 500 \<and> applications w' = applications w
                   \<and> calls w'
                       = calls w @ [Sql SelectActiveRole, Sql SelectExistingApplication,
                                    PoolConnect, Sql BEGIN, StorageUpload (uniqueFileName e req),
                                    PdfParse, Sql InsertApplication,
                                    SetImmediate (uuid_generate_v4 e), Sql COMMIT, Sql ROLLBACK,
                                    Respond 500])
                  \<or> (\<not> sql_rejects e COMMIT \<and> status r = 201
                      \<and> applications w' = applications w @ [row]
                      \<and> calls w'
                          = calls w @ [Sql SelectActiveRole, Sql SelectExistingApplication,
                                       PoolConnect, Sql BEGIN,
                                       StorageUpload (uniqueFileName e req), PdfParse,
                                       Sql InsertApplication, SetImmediate (uuid_generate_v4 e),
                                       Sql COMMIT, Respond 201]))))
   \<and> POST_applications
        (e\<lparr>sql_rejects := (sql_rejects e)(InsertEvaluation := b), groq_create := g,
           generateContent := g', JSON_parse := p\<rparr>) req w
      = POST_applications e req w
   \<and> calls (run_immediate e task v) = calls v @ [GroqCreate, Sql InsertEvaluation]
   \<and> (evaluations (run_immediate e (Immediate aid taskText description) v) \<noteq> evaluations v
      \<longrightarrow> aid \<in> set (map app_id (applications v)))"
  using submit_cases [of e req w]
    submit_ignores_scoring
      [where e = e and b = b and g = g and g' = g' and p = p and req = req and w = w]
    run_immediate_calls [of e task v]
    run_immediate_needs_application
      [where e = e and aid = aid and cvText = taskText and description = description and w = v]
  by blast

theorem submit_dispatch_inside_transaction_witness:
  "status (fst (POST_applications env0 request_A world0)) = 201
   \<and> (\<exists>(jobRole :: job_role) cvText.
         immediates (snd (POST_applications env0 request_A world0))
           = immediates world0
             @ [Immediate (uuid_generate_v4 env0) cvText (jr_description jobRole)]
         \<and> calls (snd (POST_applications env0 request_A world0))
             = calls world0 @ [Sql SelectActiveRole, Sql SelectExistingApplication, PoolConnect,
                               Sql BEGIN, StorageUpload (uniqueFileName env0 request_A), PdfParse,
                               Sql InsertApplication, SetImmediate (uuid_generate_v4 env0),
                               Sql COMMIT, Respond 201])
   \<and> status (fst (POST_applications (env0\<lparr>sql_rejects := (\<lambda>stmt. stmt = COMMIT)\<rparr>)
                     request_A world0)) = 500
   \<and> (\<exists>(jobRole :: job_role) cvText.
         immediates (snd (POST_applications (env0\<lparr>sql_rejects := (\<lambda>stmt. stmt = COMMIT)\<rparr>)
                            request_A world0))
           = immediates world0
             @ [Immediate (uuid_generate_v4 env0) cvText (jr_description jobRole)]
         \<and> applications (snd (POST_applications (env0\<lparr>sql_rejects := (\<lambda>stmt. stmt = COMMIT)\<rparr>)
                                request_A world0))
             = applications world0
         \<and> calls (snd (POST_applications (env0\<lparr>sql_rejects := (\<lambda>stmt. stmt = COMMIT)\<rparr>)
                         request_A world0))
             = calls world0 @ [Sql SelectActiveRole, Sql SelectExistingApplication, PoolConnect,
                               Sql BEGIN, StorageUpload (uniqueFileName env0 request_A), PdfParse,
                               Sql InsertApplication, SetImmediate (uuid_generate_v4 env0),
                               Sql COMMIT, Sql ROLLBACK, Respond 500])
   \<and> evaluations (run_immediate env0
                    (Immediate ''a1a1a1a1-4444-4d9e-8f60-000000000004''
                       ''Ana Diaz. 3 anos con React y Node.js''
                       ''Desarrollador full stack con React y Node.js'')
                    (snd (POST_applications env0 request_A world0)))
       = [\<lparr>ev_application_id = ''a1a1a1a1-4444-4d9e-8f60-000000000004'', ev_score = 0,
           ev_strengths = strengths groq_error_fallback,
           ev_weaknesses = weaknesses groq_error_fallback,
           ev_summary = summary groq_error_fallback,
           ev_model_used = ''llama-3.1-8b-instant''\<rparr>]
   \<and> ''a1a1a1a1-4444-4d9e-8f60-000000000004''
       \<in> set (map app_id (applications (snd (POST_applications env0 request_A world0))))"
proof -
  let ?task = "Immediate ''a1a1a1a1-4444-4d9e-8f60-000000000004''
                 ''Ana Diaz. 3 anos con React y Node.js''
                 ''Desarrollador full stack con React y Node.js''"
  let ?wA = "snd (POST_applications env0 request_A world0)"
  let ?eC = "env0\<lparr>sql_rejects := (\<lambda>stmt. stmt = COMMIT)\<rparr>"
  let ?rC = "fst (POST_applications ?eC request_A world0)"
  let ?wC = "snd (POST_applications ?eC request_A world0)"
  have st: "status (fst (POST_applications env0 request_A world0)) = 201"
    by (simp add: post_A)
  from st have not_500: "status (fst (POST_applications env0 request_A world0)) \<noteq> 500"
    by simp
  have rows: "evaluations (run_immediate env0 ?task ?wA)
       = [\<lparr>ev_application_id = ''a1a1a1a1-4444-4d9e-8f60-000000000004'', ev_score = 0,
           ev_strengths = strengths groq_error_fallback,
           ev_weaknesses = weaknesses groq_error_fallback,
           ev_summary = summary groq_error_fallback,
           ev_model_used = ''llama-3.1-8b-instant''\<rparr>]"
    unfolding post_A
    by (simp add: handler_defs example_defs timeout_fallbacks groq_error_fallback_def)
  have no_rows: "evaluations ?wA = []"
    unfolding post_A by (simp add: world0_def)
  from rows no_rows have changed: "evaluations (run_immediate env0 ?task ?wA) \<noteq> evaluations ?wA"
    by simp
  have st_C: "status ?rC = 500"
    by (simp add: handler_defs example_defs)
  from st_C have not_201: "status ?rC \<noteq> 201"
    by simp
  have queued_C: "immediates ?wC \<noteq> immediates world0"
    by (simp add: handler_defs example_defs)
  have same_id: "uuid_generate_v4 ?eC = uuid_generate_v4 env0"
    "uniqueFileName ?eC request_A = uniqueFileName env0 request_A"
    by (simp_all add: uniqueFileName_def)
  note run = submit_dispatch_inside_transaction
               [where e = env0 and req = request_A and w = world0, unfolded Let_def,
                THEN conjunct1]
  from run st not_500 have queued:
    "\<exists>(jobRole :: job_role) cvText.
         immediates ?wA
           = immediates world0
             @ [Immediate (uuid_generate_v4 env0) cvText (jr_description jobRole)]
         \<and> calls ?wA
             = calls world0 @ [Sql SelectActiveRole, Sql SelectExistingApplication, PoolConnect,
                               Sql BEGIN, StorageUpload (uniqueFileName env0 request_A), PdfParse,
                               Sql InsertApplication, SetImmediate (uuid_generate_v4 env0),
                               Sql COMMIT, Respond 201]"
    by blast
  note run_C = submit_dispatch_inside_transaction
                 [where e = ?eC and req = request_A and w = world0, unfolded Let_def same_id,
                  THEN conjunct1]
  from run_C not_201 queued_C have rolled_back:
    "\<exists>(jobRole :: job_role) cvText.
         immediates ?wC
           = immediates world0
             @ [Immediate (uuid_generate_v4 env0) cvText (jr_description jobRole)]
         \<and> applications ?wC = applications world0
         \<and> calls ?wC
             = calls world0 @ [Sql SelectActiveRole, Sql SelectExistingApplication, PoolConnect,
                               Sql BEGIN, StorageUpload (uniqueFileName env0 request_A), PdfParse,
                               Sql InsertApplication, SetImmediate (uuid_generate_v4 env0),
                               Sql COMMIT, Sql ROLLBACK, Respond 500]"
    by blast
  from submit_dispatch_inside_transaction
         [where v = ?wA and e = env0 and aid = "''a1a1a1a1-4444-4d9e-8f60-000000000004''"
            and taskText = "''Ana Diaz. 3 anos con React y Node.js''"
            and description = "''Desarrollador full stack con React y Node.js''"] changed
  have present: "''a1a1a1a1-4444-4d9e-8f60-000000000004'' \<in> set (map app_id (applications ?wA))"
    by blast
  from st queued st_C rolled_back rows present show ?thesis by blast
qed

text \<open>
  Claim C7, as stated: one N holds for every evaluation row, whichever route wrote it. It
  does not: with both providers timing out, the row that the background task of a
  submission writes has two strengths and two weaknesses, and the row that reevaluate
  then writes for the same application has three of each.
\<close>

theorem background_rows_have_two_reevaluated_rows_three:
  "(let (r, w) = POST_applications env0 request_A world0;
        w1 = run_next_immediate env0 w;
        (r2, w2) = POST_reevaluate env0 ''a1a1a1a1-4444-4d9e-8f60-000000000004'' w1
    in status r = 201 \<and> status r2 = 200
       \<and> map (\<lambda>row. (length (ev_strengths row), length (ev_weaknesses row))) (evaluations w1)
           = [(2, 2)]
       \<and> map (\<lambda>row. (length (ev_strengths row), length (ev_weaknesses row))) (evaluations w2)
           = [(3, 3)])"
  unfolding post_A
  by (simp add: handler_defs example_defs timeout_fallbacks groq_error_fallback_def
        gemini_fallback_def)

lemma insert_evaluation_rows:
  "evaluations (snd (insert_evaluation e aid ev model w)) = evaluations w
   \<or> (\<exists>row. evaluations (snd (insert_evaluation e aid ev model w)) = evaluations w @ [row]
            \<and> ev_strengths row = strengths ev \<and> ev_weaknesses row = weaknesses ev)"
  by (auto simp: insert_evaluation_def query_def emit_def console_dot_error_def Let_def
      split: if_splits number.splits)

lemma update_evaluation_rows:
  assumes "row \<in> set (evaluations (snd (update_evaluation e aid ev model w)))"
  shows "row \<in> set (evaluations w)
         \<or> (ev_strengths row = strengths ev \<and> ev_weaknesses row = weaknesses ev)"
  using assms
  by (auto simp: update_evaluation_def query_def emit_def console_dot_error_def Let_def
      split: if_splits number.splits)

lemma run_immediate_rows:
  "evaluations (run_immediate e task w) = evaluations w
   \<or> (\<exists>row. evaluations (run_immediate e task w) = evaluations w @ [row]
            \<and> length (ev_strengths row) \<le> 2 \<and> length (ev_weaknesses row) \<le> 2)"
proof (cases task)
  case (Immediate aid cvText description)
  obtain ev where ev: "evaluateCV (groq_create e) (JSON_parse e) cvText description = Inr ev"
    using evaluateCV_returns by blast
  then have len: "length (strengths ev) \<le> 2 \<and> length (weaknesses ev) \<le> 2"
    by (rule evaluateCV_lengths)
  obtain res w1 where ins:
    "insert_evaluation e aid ev ''llama-3.1-8b-instant'' (scored_by_groq e cvText description w) = (res, w1)"
    by (metis prod.exhaust)
  have eq: "evaluations (run_immediate e task w) = evaluations w1"
    using Immediate ev ins by (cases res) (simp_all add: run_immediate_def console_dot_error_def)
  have "evaluations (scored_by_groq e cvText description w) = evaluations w" by (simp add: emit_def scored_by_groq_def scored_by_gemini_def console_dot_errors_def)
  with insert_evaluation_rows [of e aid ev "''llama-3.1-8b-instant''" "scored_by_groq e cvText description w"] ins
  have "evaluations w1 = evaluations w
        \<or> (\<exists>row. evaluations w1 = evaluations w @ [row]
                 \<and> ev_strengths row = strengths ev \<and> ev_weaknesses row = weaknesses ev)"
    by simp
  with eq len show ?thesis by auto
qed

lemma reevaluate_try_rows:
  assumes "row \<in> set (evaluations (snd (reevaluate_try e aid cvText description w)))"
  shows "row \<in> set (evaluations w)
         \<or> (length (ev_strengths row) = 3 \<and> length (ev_weaknesses row) = 3)"
proof -
  obtain ev where ev:
    "evaluateCVWithText (generateContent e) (JSON_parse e) cvText description = Inr ev"
    using evaluateCVWithText_returns by blast
  then have len: "length (strengths ev) = 3 \<and> length (weaknesses ev) = 3"
    using evaluateCVWithText_shape by blast
  let ?w0 = "scored_by_gemini e cvText description w"
  have w0: "evaluations ?w0 = evaluations w" by (simp add: emit_def scored_by_groq_def scored_by_gemini_def console_dot_errors_def)
  show ?thesis
  proof (cases "sql_rejects e SelectEvaluation")
    case True
    with assms ev show ?thesis
      by (simp add: reevaluate_try_def query_def emit_def console_dot_error_def scored_by_gemini_def
            console_dot_errors_def)
  next
    case False
    let ?w1 = "emit (Sql SelectEvaluation) ?w0"
    have w1: "evaluations ?w1 = evaluations w" by (simp add: emit_def scored_by_groq_def scored_by_gemini_def console_dot_errors_def)
    show ?thesis
    proof (cases "filter (\<lambda>r. ev_application_id r = aid) (evaluations ?w1) = []")
      case True
      obtain res w2 where ins: "insert_evaluation e aid ev MODEL_TEXT ?w1 = (res, w2)"
        by (metis prod.exhaust)
      have "snd (reevaluate_try e aid cvText description w) = w2"
        using ev False True ins
        by (cases res) (simp_all add: reevaluate_try_def query_def)
      with assms have "row \<in> set (evaluations w2)" by simp
      with insert_evaluation_rows [of e aid ev MODEL_TEXT ?w1] ins w1 len show ?thesis
        by auto
    next
      case nonempty: False
      have "snd (reevaluate_try e aid cvText description w)
              = snd (update_evaluation e aid ev MODEL_TEXT ?w1)"
        using ev False nonempty by (simp add: reevaluate_try_def query_def)
      with assms have "row \<in> set (evaluations (snd (update_evaluation e aid ev MODEL_TEXT ?w1)))"
        by simp
      from update_evaluation_rows [OF this] w1 len show ?thesis by auto
    qed
  qed
qed

lemma evaluations_emit [simp]: "evaluations (emit c w) = evaluations w"
  by (simp add: emit_def scored_by_groq_def scored_by_gemini_def console_dot_errors_def)

lemma evaluations_console_dot_error [simp]:
  "evaluations (console_dot_error line w) = evaluations w"
  by (simp add: console_dot_error_def)

lemma evaluations_respond [simp]:
  "evaluations (snd (respond st msg w)) = evaluations w"
  by (simp add: respond_def)

lemma reevaluate_rows:
  assumes "row \<in> set (evaluations (snd (POST_reevaluate e applicationId w)))"
  shows "row \<in> set (evaluations w)
         \<or> (length (ev_strengths row) = 3 \<and> length (ev_weaknesses row) = 3)"
proof (cases "\<exists>u application jr others cvText.
                authenticated e = Some u \<and> validationError e = None
                \<and> \<not> sql_rejects e SelectApplicationJoin
                \<and> select_application_join w applicationId = (application, jr) # others
                \<and> \<not> not_permitted u jr \<and> cv_text application = Some cvText \<and> cvText \<noteq> []")
  case True
  then obtain u application jr others cvText where h:
    "authenticated e = Some u" "validationError e = None"
    "\<not> sql_rejects e SelectApplicationJoin"
    "select_application_join w applicationId = (application, jr) # others"
    "\<not> not_permitted u jr" "cv_text application = Some cvText" "cvText \<noteq> []"
    by blast
  let ?w1 = "emit (Sql SelectApplicationJoin) w"
  obtain res w2 where t: "reevaluate_try e applicationId cvText (jr_description jr) ?w1 = (res, w2)"
    by (metis prod.exhaust)
  have "evaluations (snd (POST_reevaluate e applicationId w)) = evaluations w2"
    using h t
    by (cases res) (simp_all add: POST_reevaluate_def query_def)
  with assms t
  have "row \<in> set (evaluations (snd (reevaluate_try e applicationId cvText (jr_description jr) ?w1)))"
    by simp
  from reevaluate_try_rows [OF this] show ?thesis by simp
next
  case False
  then have "evaluations (snd (POST_reevaluate e applicationId w)) = evaluations w"
    by (auto simp: POST_reevaluate_def query_def
        split: option.splits if_splits list.splits prod.splits)
  with assms show ?thesis by simp
qed

text \<open>
  Claim C7, amended: an evaluation row written by the background task of a submission
  holds at most two strengths and at most two weaknesses; every row that reevaluate
  writes or overwrites holds exactly three of each.
\<close>

theorem evaluation_rows_follow_their_client:
  "(evaluations (run_immediate e task w) = evaluations w
    \<or> (\<exists>row. evaluations (run_immediate e task w) = evaluations w @ [row]
             \<and> length (ev_strengths row) \<le> 2 \<and> length (ev_weaknesses row) \<le> 2))
   \<and> (\<forall>row \<in> set (evaluations (snd (POST_reevaluate e applicationId w))).
         row \<in> set (evaluations w)
         \<or> (length (ev_strengths row) = 3 \<and> length (ev_weaknesses row) = 3))"
  using run_immediate_rows [of e task w] reevaluate_rows [of _ e applicationId w]
  by blast

theorem evaluation_rows_follow_their_client_witness:
  "evaluations (snd (POST_reevaluate env0 ''a1a1a1a1-4444-4d9e-8f60-000000000004'' world_A))
     = [\<lparr>ev_application_id = ''a1a1a1a1-4444-4d9e-8f60-000000000004'', ev_score = 0,
         ev_strengths = strengths gemini_fallback, ev_weaknesses = weaknesses gemini_fallback,
         ev_summary = summary gemini_fallback, ev_model_used = ''gemini-1.5-flash''\<rparr>]
   \<and> length (strengths gemini_fallback) = 3 \<and> length (weaknesses gemini_fallback) = 3"
proof -
  let ?row = "\<lparr>ev_application_id = ''a1a1a1a1-4444-4d9e-8f60-000000000004'', ev_score = 0,
         ev_strengths = strengths gemini_fallback, ev_weaknesses = weaknesses gemini_fallback,
         ev_summary = summary gemini_fallback, ev_model_used = ''gemini-1.5-flash''\<rparr>"
  have rows: "evaluations (snd (POST_reevaluate env0 ''a1a1a1a1-4444-4d9e-8f60-000000000004'' world_A))
                = [?row]"
    by (simp add: handler_defs example_defs timeout_fallbacks gemini_fallback_def)
  have new: "?row \<notin> set (evaluations world_A)"
    by (simp add: example_defs)
  from rows have "?row \<in> set (evaluations (snd (POST_reevaluate env0
                      ''a1a1a1a1-4444-4d9e-8f60-000000000004'' world_A)))"
    by simp
  with evaluation_rows_follow_their_client
         [where e = env0 and applicationId = "''a1a1a1a1-4444-4d9e-8f60-000000000004''"
            and w = world_A] new
  have "length (ev_strengths ?row) = 3 \<and> length (ev_weaknesses ?row) = 3"
    by blast
  with rows show ?thesis by simp
qed

end
